theory Spec2Isabelle
  imports Complex_Main
begin

section \<open>Python values, exceptions and arithmetic\<close>

text \<open>
  The strategy managers of \<^verbatim>\<open>src/advanced/grid_orders.py\<close> and
  \<^verbatim>\<open>src/advanced/twap.py\<close> are embedded as HOL functions.

  \<^item> A Python float is an IEEE 754 binary64 number (\<open>pyfloat\<close> below): the result of
    \<open>+\<close>, \<open>-\<close>, \<open>*\<close> and \<open>/\<close> is the exact result rounded to the nearest double, ties
    to even, and it overflows to an infinity.
  \<^item> Python strings are modelled as \<open>string\<close> and are taken to be ASCII.
  \<^item> An exception is a value of type \<open>error\<close>; a function that can raise returns
    \<open>error + 'a\<close> with \<open>Inl\<close> for the exception. \<open>ApiException\<close> stands for
    whatever the API client raises, with its message. An outcome list that stores
    \<open>str(e)\<close> of a caught exception stores the exception itself in the model.
\<close>

datatype error =
    ValidationError string
  | ZeroDivisionError
  | OverflowError
  | TypeError
  | ValueError
  | ApiException string
  | ComplexResult

subsection \<open>Floats\<close>

text \<open>
  A float is a finite number, an infinity or NaN. The two zeros of IEEE 754 are one
  value here: they compare equal, and a division by either raises, so the code
  modelled below cannot tell them apart.
\<close>

datatype pyfloat = Fin real | PInf | NInf | NaN

text \<open>
  \<open>ilog2 fuel x\<close> is the binary exponent of \<open>x > 0\<close>, the \<open>k\<close> with
  \<open>2^k \<le> x < 2^(k+1)\<close>, found by halving or doubling at most \<open>fuel\<close> times.
\<close>

fun ilog2 :: "nat \<Rightarrow> real \<Rightarrow> int" where
  "ilog2 0 x = 0"
| "ilog2 (Suc fuel) x =
     (if 2 \<le> x then ilog2 fuel (x / 2) + 1
      else if x < 1 then ilog2 fuel (x * 2) - 1
      else 0)"

text \<open>
  The exponent of the unit in the last place of the doubles around \<open>x\<close>: a double
  has 53 significant bits, and below \<open>2^-1022\<close> (the subnormal range) the spacing
  stays \<open>2^-1074\<close>.
\<close>

definition ulp_exponent :: "real \<Rightarrow> int" where
  "ulp_exponent x = (if \<bar>x\<bar> < 2 powi (- 1022) then - 1074 else ilog2 2100 \<bar>x\<bar> - 52)"

text \<open>The nearest integer, a tie going to the even one.\<close>

definition round_half_even :: "real \<Rightarrow> int" where
  "round_half_even y =
     (let f = \<lfloor>y\<rfloor>; d = y - of_int f
      in if d < 1 / 2 then f else if 1 / 2 < d then f + 1 else if even f then f else f + 1)"

text \<open>The nearest multiple of the unit in the last place.\<close>

definition rnd :: "real \<Rightarrow> real" where
  "rnd x = of_int (round_half_even (x / 2 powi ulp_exponent x)) * 2 powi ulp_exponent x"

text \<open>
  The double that an exact result \<open>x\<close> is rounded to. The largest double is
  \<open>2^1024 - 2^971\<close>; a result that rounds to \<open>2^1024\<close> or beyond is an infinity.
\<close>

definition to_double :: "real \<Rightarrow> pyfloat" where
  "to_double x =
     (if 2 ^ 1024 \<le> \<bar>x\<bar> then (if 0 < x then PInf else NInf)
      else (let r = rnd x
            in if 2 ^ 1024 \<le> \<bar>r\<bar> then (if 0 < r then PInf else NInf) else Fin r))"

text \<open>A real number that is a double: rounding leaves it as it is.\<close>

definition is_double :: "real \<Rightarrow> bool" where
  "is_double r \<longleftrightarrow> to_double r = Fin r"

text \<open>The number a finite float stands for.\<close>

fun fval :: "pyfloat \<Rightarrow> real" where
  "fval (Fin r) = r"
| "fval PInf = 0"
| "fval NInf = 0"
| "fval NaN = 0"


text \<open>The arithmetic of IEEE 754 on these values.\<close>

fun fneg :: "pyfloat \<Rightarrow> pyfloat" where
  "fneg (Fin a) = Fin (- a)"
| "fneg PInf = NInf"
| "fneg NInf = PInf"
| "fneg NaN = NaN"

fun fadd :: "pyfloat \<Rightarrow> pyfloat \<Rightarrow> pyfloat" where
  "fadd (Fin a) (Fin b) = to_double (a + b)"
| "fadd NaN y = NaN"
| "fadd x NaN = NaN"
| "fadd PInf NInf = NaN"
| "fadd NInf PInf = NaN"
| "fadd PInf y = PInf"
| "fadd x PInf = PInf"
| "fadd NInf y = NInf"
| "fadd x NInf = NInf"

definition fsub :: "pyfloat \<Rightarrow> pyfloat \<Rightarrow> pyfloat" where
  "fsub x y = fadd x (fneg y)"

text \<open>The sign of a float that is not NaN: 1, 0 or -1.\<close>

fun fsign :: "pyfloat \<Rightarrow> int" where
  "fsign (Fin a) = (if 0 < a then 1 else if a < 0 then - 1 else 0)"
| "fsign PInf = 1"
| "fsign NInf = - 1"
| "fsign NaN = 0"

fun fmul :: "pyfloat \<Rightarrow> pyfloat \<Rightarrow> pyfloat" where
  "fmul (Fin a) (Fin b) = to_double (a * b)"
| "fmul NaN y = NaN"
| "fmul x NaN = NaN"
| "fmul x y =
     (if fsign x * fsign y = 0 then NaN
      else if 0 < fsign x * fsign y then PInf
      else NInf)"

text \<open>The quotient for a divisor that is not zero.\<close>

fun fdiv :: "pyfloat \<Rightarrow> pyfloat \<Rightarrow> pyfloat" where
  "fdiv (Fin a) (Fin b) = to_double (a / b)"
| "fdiv NaN y = NaN"
| "fdiv x NaN = NaN"
| "fdiv (Fin a) y = Fin 0"
| "fdiv PInf (Fin b) = (if b < 0 then NInf else PInf)"
| "fdiv NInf (Fin b) = (if b < 0 then PInf else NInf)"
| "fdiv x y = NaN"

text \<open>The comparisons \<open><\<close> and \<open><=\<close>; every comparison with NaN is false.\<close>

fun flt :: "pyfloat \<Rightarrow> pyfloat \<Rightarrow> bool" where
  "flt (Fin a) (Fin b) = (a < b)"
| "flt NaN y = False"
| "flt x NaN = False"
| "flt x NInf = False"
| "flt PInf y = False"
| "flt NInf y = True"
| "flt x PInf = True"

fun fle :: "pyfloat \<Rightarrow> pyfloat \<Rightarrow> bool" where
  "fle (Fin a) (Fin b) = (a \<le> b)"
| "fle NaN y = False"
| "fle x NaN = False"
| "fle NInf y = True"
| "fle x PInf = True"
| "fle x NInf = False"
| "fle PInf y = False"

text \<open>\<open>abs(x)\<close>, and \<open>max(x, y)\<close>, which returns \<open>y\<close> only when \<open>y > x\<close>.\<close>

fun fabs :: "pyfloat \<Rightarrow> pyfloat" where
  "fabs (Fin a) = Fin \<bar>a\<bar>"
| "fabs PInf = PInf"
| "fabs NInf = PInf"
| "fabs NaN = NaN"


text \<open>\<open>x / y\<close> on floats raises \<open>ZeroDivisionError\<close> for a zero divisor.\<close>

definition float_div :: "pyfloat \<Rightarrow> pyfloat \<Rightarrow> error + pyfloat" where
  "float_div x y = (if y = Fin 0 then Inl ZeroDivisionError else Inr (fdiv x y))"

text \<open>
  The conversion of a Python int to a float, which every mixed operation applies to its
  int operand: the nearest double, or \<open>OverflowError\<close> when there is none.
\<close>

definition float_of_int :: "int \<Rightarrow> error + pyfloat" where
  "float_of_int i =
     (case to_double (of_int i) of
        Fin r \<Rightarrow> Inr (Fin r)
      | PInf \<Rightarrow> Inl OverflowError
      | NInf \<Rightarrow> Inl OverflowError
      | NaN \<Rightarrow> Inl OverflowError)"

text \<open>\<open>x / n\<close>, \<open>i * x\<close> and \<open>x * i\<close> for a float \<open>x\<close> and ints \<open>n\<close>, \<open>i\<close>.\<close>

definition float_div_int :: "pyfloat \<Rightarrow> int \<Rightarrow> error + pyfloat" where
  "float_div_int x n =
     (case float_of_int n of Inl e \<Rightarrow> Inl e | Inr d \<Rightarrow> float_div x d)"

definition int_mul_float :: "int \<Rightarrow> pyfloat \<Rightarrow> error + pyfloat" where
  "int_mul_float i x =
     (case float_of_int i of Inl e \<Rightarrow> Inl e | Inr d \<Rightarrow> Inr (fmul d x))"

definition float_mul_int :: "pyfloat \<Rightarrow> int \<Rightarrow> error + pyfloat" where
  "float_mul_int x i =
     (case float_of_int i of Inl e \<Rightarrow> Inl e | Inr d \<Rightarrow> Inr (fmul x d))"

text \<open>
  \<open>a / b\<close> for two ints: the exact quotient rounded to a double, \<open>ZeroDivisionError\<close>
  for \<open>b = 0\<close>, \<open>OverflowError\<close> when the quotient is too large for a float.
\<close>

definition int_true_div :: "int \<Rightarrow> int \<Rightarrow> error + pyfloat" where
  "int_true_div a b =
     (if b = 0 then Inl ZeroDivisionError
      else (case to_double (of_int a / of_int b) of
              Fin r \<Rightarrow> Inr (Fin r)
            | PInf \<Rightarrow> Inl OverflowError
            | NInf \<Rightarrow> Inl OverflowError
            | NaN \<Rightarrow> Inl OverflowError))"

text \<open>
  \<open>x ** y\<close> on floats. The functions below that use it take it as a parameter of
  this type, so that what they do can be stated for every power function.
\<close>

type_synonym pow = "pyfloat \<Rightarrow> pyfloat \<Rightarrow> error + pyfloat"

text \<open>
  Python's own \<open>**\<close>. The interpreter settles the special cases itself: a zero
  exponent gives 1, NaN and the infinities go as below, a zero base with a negative
  exponent raises \<open>ZeroDivisionError\<close>, and a base of 1 or -1 gives 1 or -1. A negative
  base with a fractional exponent gives a complex number, which leaves the floats and is
  marked \<open>ComplexResult\<close>. Every other power is computed by the \<open>pow\<close> of the
  platform's C library, and an overflow there raises \<open>OverflowError\<close>; that function
  is taken to round the exact power to the nearest double.
\<close>

definition odd_integer :: "real \<Rightarrow> bool" where
  "odd_integer b \<longleftrightarrow> b = of_int \<lfloor>b\<rfloor> \<and> odd \<lfloor>b\<rfloor>"

definition python_pow :: pow where
  "python_pow x y =
     (if y = Fin 0 then Inr (Fin 1)
      else if x = NaN then Inr NaN
      else if y = NaN then Inr (if x = Fin 1 then Fin 1 else NaN)
      else if y = PInf \<or> y = NInf then
        (if fabs x = Fin 1 then Inr (Fin 1)
         else if (y = PInf) = flt (Fin 1) (fabs x) then Inr PInf
         else Inr (Fin 0))
      else if x = PInf \<or> x = NInf then
        (if 0 < fval y then Inr (if odd_integer (fval y) then x else PInf)
         else Inr (Fin 0))
      else if fval x = 0 then
        (if fval y < 0 then Inl ZeroDivisionError else Inr (Fin 0))
      else if fval x < 0 \<and> fval y \<noteq> of_int \<lfloor>fval y\<rfloor> then Inl ComplexResult
      else if \<bar>fval x\<bar> = 1 then
        Inr (Fin (if fval x < 0 \<and> odd_integer (fval y) then - 1 else 1))
      else
        (case to_double (\<bar>fval x\<bar> powr fval y) of
           Fin r \<Rightarrow> Inr (Fin (if fval x < 0 \<and> odd_integer (fval y) then - r else r))
         | PInf \<Rightarrow> Inl OverflowError
         | NInf \<Rightarrow> Inl OverflowError
         | NaN \<Rightarrow> Inl OverflowError))"

text \<open>
  \<open>sum(xs)\<close> of a list of floats: it starts from 0 and adds the elements from left
  to right, each addition rounded (CPython up to 3.11).
\<close>

definition py_sum :: "pyfloat list \<Rightarrow> pyfloat" where
  "py_sum xs = foldl fadd (Fin 0) xs"

text \<open>\<open>range(n)\<close> for a Python int \<open>n\<close>: empty when \<open>n \<le> 0\<close>.\<close>

definition py_range :: "int \<Rightarrow> nat list" where
  "py_range n = [0..<nat n]"

text \<open>
  A list comprehension \<open>[f(x) for x in xs]\<close> whose element expression can raise: the
  elements are evaluated in order and the first exception ends the comprehension.
\<close>

fun try_map :: "('a \<Rightarrow> error + 'b) \<Rightarrow> 'a list \<Rightarrow> error + 'b list" where
  "try_map f [] = Inr []"
| "try_map f (x # xs) =
     (case f x of
        Inl e \<Rightarrow> Inl e
      | Inr y \<Rightarrow> (case try_map f xs of Inl e \<Rightarrow> Inl e | Inr ys \<Rightarrow> Inr (y # ys)))"

text \<open>
  \<open>time.sleep(secs)\<close>. It converts the length to a count of nanoseconds held in 64
  bits and raises \<open>ValueError\<close> for NaN, \<open>OverflowError\<close> when the count does not
  fit, and \<open>ValueError\<close> for a negative length.
\<close>

definition sleep :: "pyfloat \<Rightarrow> error + unit" where
  "sleep secs =
     (if secs = NaN then Inl ValueError
      else if flt (Fin (2 ^ 63)) (fmul secs (Fin 1000000000))
              \<or> flt (fmul secs (Fin 1000000000)) (Fin (- (2 ^ 63)))
        then Inl OverflowError
      else if flt secs (Fin 0) then Inl ValueError
      else Inr ())"

subsection \<open>Strings\<close>

definition upper_char :: "char \<Rightarrow> char" where
  "upper_char c =
     (case map_of (zip ''abcdefghijklmnopqrstuvwxyz'' ''ABCDEFGHIJKLMNOPQRSTUVWXYZ'') c of
        None \<Rightarrow> c
      | Some u \<Rightarrow> u)"

definition upper :: "string \<Rightarrow> string" where
  "upper s = map upper_char s"

definition is_space :: "char \<Rightarrow> bool" where
  "is_space c = (c \<in> set [CHR '' '', CHR 0x09, CHR 0x0A, CHR 0x0B, CHR 0x0C, CHR 0x0D,
                           CHR 0x1C, CHR 0x1D, CHR 0x1E, CHR 0x1F])"

definition strip :: "string \<Rightarrow> string" where
  "strip s = rev (dropWhile is_space (rev (dropWhile is_space s)))"

definition quoted :: "string \<Rightarrow> string" where
  "quoted s = CHR 0x27 # s @ [CHR 0x27]"

fun join :: "string \<Rightarrow> string list \<Rightarrow> string" where
  "join sep [] = []"
| "join sep [x] = x"
| "join sep (x # y # ys) = x @ sep @ join sep (y # ys)"

section \<open>TradingValidator (src/validators.py)\<close>

definition supported_symbols :: "string list" where
  "supported_symbols =
     [''BTCUSDT'', ''ETHUSDT'', ''BNBUSDT'', ''ADAUSDT'', ''XRPUSDT'',
      ''SOLUSDT'', ''DOTUSDT'', ''DOGEUSDT'', ''AVAXUSDT'', ''MATICUSDT'',
      ''LINKUSDT'', ''LTCUSDT'', ''BCHUSDT'', ''UNIUSDT'', ''ATOMUSDT'']"

text \<open>
  The bounds. \<open>0.001\<close> and \<open>0.0001\<close> are float literals, that is the doubles nearest
  to these decimals; \<open>1000000\<close> is an int, with which a float is compared exactly.
\<close>

definition min_quantity :: pyfloat where "min_quantity = to_double (1 / 1000)"
definition max_quantity :: pyfloat where "max_quantity = Fin 1000000"
definition min_price :: pyfloat where "min_price = to_double (1 / 10000)"
definition max_price :: pyfloat where "max_price = Fin 1000000"

definition supported_sides :: "string list" where
  "supported_sides = [''BUY'', ''SELL'']"

definition validate_symbol :: "string \<Rightarrow> error + string" where
  "validate_symbol symbol =
     (if symbol = [] then Inl (ValidationError ''Symbol cannot be empty'')
      else
        (let symbol' = strip (upper symbol) in
         if symbol' \<notin> set supported_symbols then
           Inl (ValidationError (''Symbol '' @ symbol' @ '' is not supported. Supported symbols: ''
                  @ join '', '' supported_symbols))
         else Inr symbol'))"

definition validate_quantity :: "pyfloat \<Rightarrow> error + pyfloat" where
  "validate_quantity quantity =
     (if fle quantity (Fin 0) then Inl (ValidationError ''Quantity must be positive'')
      else if flt quantity min_quantity then
        Inl (ValidationError ''Quantity must be at least 0.001'')
      else if flt max_quantity quantity then
        Inl (ValidationError ''Quantity cannot exceed 1000000'')
      else Inr quantity)"

definition validate_price :: "pyfloat \<Rightarrow> error + pyfloat" where
  "validate_price price =
     (if fle price (Fin 0) then Inl (ValidationError ''Price must be positive'')
      else if flt price min_price then
        Inl (ValidationError ''Price must be at least 0.0001'')
      else if flt max_price price then
        Inl (ValidationError ''Price cannot exceed 1000000'')
      else Inr price)"

definition validate_side :: "string \<Rightarrow> error + string" where
  "validate_side side =
     (if side = [] then Inl (ValidationError ''Side cannot be empty'')
      else
        (let side' = strip (upper side) in
         if side' \<notin> set supported_sides then
           Inl (ValidationError (''Side '' @ side' @ '' is not supported. Supported sides: ''
                  @ join '', '' supported_sides))
         else Inr side'))"

section \<open>Schedule calculators\<close>

text \<open>
  \<open>GridOrderManager._calculate_grid_prices\<close> (grid_orders.py, lines 475-500). The
  three branches compute, in this order of operations,
  \<open>lower + i * ((upper - lower) / (n - 1))\<close>,
  \<open>lower * (((upper / lower) ** (1 / (n - 1))) ** i)\<close> and
  \<open>lower + (i * (upper - lower)) / (n - 1)\<close>.
\<close>

definition calculate_grid_prices ::
  "pow \<Rightarrow> pyfloat \<Rightarrow> pyfloat \<Rightarrow> int \<Rightarrow> string \<Rightarrow> error + pyfloat list" where
  "calculate_grid_prices float_pow lower_price upper_price num_grids grid_type =
     (if grid_type = ''ARITHMETIC'' then
        (case float_div_int (fsub upper_price lower_price) (num_grids - 1) of
           Inl e \<Rightarrow> Inl e
         | Inr price_step \<Rightarrow>
             try_map
               (\<lambda>i. case int_mul_float (int i) price_step of
                      Inl e \<Rightarrow> Inl e
                    | Inr d \<Rightarrow> Inr (fadd lower_price d))
               (py_range num_grids))
      else if grid_type = ''GEOMETRIC'' then
        (case float_div upper_price lower_price of
           Inl e \<Rightarrow> Inl e
         | Inr base \<Rightarrow>
             (case int_true_div 1 (num_grids - 1) of
                Inl e \<Rightarrow> Inl e
              | Inr exponent \<Rightarrow>
                  (case float_pow base exponent of
                     Inl e \<Rightarrow> Inl e
                   | Inr ratio \<Rightarrow>
                       try_map
                         (\<lambda>i. case float_of_int (int i) of
                                Inl e \<Rightarrow> Inl e
                              | Inr fi \<Rightarrow>
                                  (case float_pow ratio fi of
                                     Inl e \<Rightarrow> Inl e
                                   | Inr p \<Rightarrow> Inr (fmul lower_price p)))
                         (py_range num_grids))))
      else
        try_map
          (\<lambda>i. case int_mul_float (int i) (fsub upper_price lower_price) of
                 Inl e \<Rightarrow> Inl e
               | Inr t \<Rightarrow>
                   (case float_div_int t (num_grids - 1) of
                      Inl e \<Rightarrow> Inl e
                    | Inr d \<Rightarrow> Inr (fadd lower_price d)))
          (py_range num_grids))"

text \<open>\<open>GridOrderManager._calculate_grid_quantities\<close> (grid_orders.py, lines 502-519).\<close>

definition calculate_grid_quantities :: "pyfloat \<Rightarrow> int \<Rightarrow> string \<Rightarrow> error + pyfloat list" where
  "calculate_grid_quantities total_quantity num_grids side =
     (if side = ''BOTH'' then
        (case float_div_int total_quantity num_grids of
           Inl e \<Rightarrow> Inl e
         | Inr q \<Rightarrow> Inr (replicate (nat num_grids) q))
      else
        (case float_div_int total_quantity num_grids of
           Inl e \<Rightarrow> Inl e
         | Inr q \<Rightarrow> Inr (replicate (nat num_grids) q)))"



section \<open>The collaborators: API client and logger\<close>

text \<open>
  The managers call \<open>api_client.place_limit_order\<close> and
  \<open>api_client.place_market_order\<close> (src/api_client.py, lines 138-162). Both send one
  HTTP request and either return the response dictionary or raise. The client is a
  parameter of the model: a function from the request and the state of the outside
  world to the outcome and the new state of the world.
\<close>

text \<open>
  The arguments of the two calls: symbol, side, quantity, and for a limit order the
  price (\<open>None\<close> for Python's \<open>None\<close>) and the time in force.
\<close>

datatype order_request =
    LimitOrder string string pyfloat "pyfloat option" string
  | MarketOrder string string pyfloat

text \<open>
  A value of the response dictionary as \<open>float(d.get(key, 0))\<close> sees it: the key is
  absent (the default 0 is used), or holds something \<open>float\<close> converts, or holds
  something on which \<open>float\<close> raises.
\<close>

datatype field = Absent | Num pyfloat | Unparsable

definition to_float :: "field \<Rightarrow> error + pyfloat" where
  "to_float v =
     (case v of Absent \<Rightarrow> Inr (Fin 0) | Num r \<Rightarrow> Inr r | Unparsable \<Rightarrow> Inl ValueError)"

record order_ack =
  orderId :: "int option"
  status :: "string option"
  executedQty :: field
  cummulativeQuoteQty :: field

type_synonym 'w client = "order_request \<Rightarrow> 'w \<Rightarrow> (error + order_ack) \<times> 'w"

text \<open>
  The logger is the other constructor argument of the managers. They call
  \<open>log_order_placed\<close> and \<open>log_error\<close>, which accept any keyword arguments and return,
  and \<open>info(message, extra_data=...)\<close>. What that last call does depends on the logger
  object; the model takes its outcome as the logger's one field: \<open>None\<close> when the call
  returns, \<open>Some e\<close> when it raises \<open>e\<close>.
\<close>

record logger =
  info_with_extra_data :: "error option"

text \<open>
  \<open>BotLogger\<close> (src/logger.py, line 168) declares \<open>def info(self, message: str)\<close>: it
  has no \<open>extra_data\<close> parameter, so the call raises \<open>TypeError\<close>.
\<close>

definition BotLogger :: logger where
  "BotLogger = \<lparr>info_with_extra_data = Some TypeError\<rparr>"

section \<open>GridOrderManager (src/advanced/grid_orders.py)\<close>

record placed_order =
  po_grid_index :: nat
  po_price :: pyfloat
  po_quantity :: pyfloat
  po_side :: string
  po_order_id :: "int option"
  po_status :: "string option"

record dca_placed_order = placed_order +
  po_usdt_amount :: pyfloat

record failed_order =
  fo_grid_index :: nat
  fo_price :: pyfloat
  fo_quantity :: pyfloat
  fo_error :: error

text \<open>The variables a grid loop updates: the two outcome lists, and the world.\<close>

record ('p, 'w) grid_state =
  placed :: "'p list"
  failed :: "failed_order list"
  world :: 'w

record grid_report =
  g_symbol :: string
  g_side :: string
  g_total_quantity :: pyfloat
  g_upper_price :: pyfloat
  g_lower_price :: pyfloat
  g_num_grids :: int
  g_grid_type :: string
  g_placed_orders :: "placed_order list"
  g_failed_orders :: "failed_order list"
  g_success_rate :: pyfloat
  g_grid_prices :: "pyfloat list"
  g_grid_quantities :: "pyfloat list"

text \<open>
  One iteration of the loop of \<open>place_grid_order\<close> (lines 87-142): the body of the
  \<open>try\<close>, and the \<open>except Exception\<close> handler for whatever the body raised. The
  \<open>logger.info\<close> call stands inside the \<open>try\<close>, after the append to
  \<open>placed_orders\<close>. \<open>time.sleep(0.1)\<close> returns.
\<close>

definition grid_leg ::
  "logger \<Rightarrow> 'w client \<Rightarrow> string \<Rightarrow> string \<Rightarrow> string \<Rightarrow> nat \<times> pyfloat \<times> pyfloat \<Rightarrow>
   (placed_order, 'w) grid_state \<Rightarrow> (placed_order, 'w) grid_state" where
  "grid_leg lg submit symbol side time_in_force leg st =
     (case leg of (i, price, quantity) \<Rightarrow>
        (let grid_side =
               (if side = ''BOTH'' then (if i mod 2 = 0 then ''BUY'' else ''SELL'') else side);
             failure = (\<lambda>e. \<lparr>fo_grid_index = i + 1, fo_price = price,
                               fo_quantity = quantity, fo_error = e\<rparr>)
         in case submit (LimitOrder symbol grid_side quantity (Some price) time_in_force)
                   (world st) of
              (Inl e, w') \<Rightarrow> st\<lparr>failed := failed st @ [failure e], world := w'\<rparr>
            | (Inr order_result, w') \<Rightarrow>
                (let st' = st\<lparr>placed := placed st @
                                  [\<lparr>po_grid_index = i + 1, po_price = price,
                                    po_quantity = quantity, po_side = grid_side,
                                    po_order_id = orderId order_result,
                                    po_status = status order_result\<rparr>],
                                world := w'\<rparr>
                 in case info_with_extra_data lg of
                      None \<Rightarrow> st'
                    | Some e \<Rightarrow> st'\<lparr>failed := failed st' @ [failure e]\<rparr>)))"

text \<open>
  \<open>len(placed_orders) / num_grids * 100\<close>: the quotient of two ints, then a float
  times the int 100.
\<close>

definition success_rate :: "nat \<Rightarrow> int \<Rightarrow> error + pyfloat" where
  "success_rate count num =
     (case int_true_div (int count) num of
        Inl e \<Rightarrow> Inl e
      | Inr rate \<Rightarrow> float_mul_int rate 100)"

text \<open>\<open>GridOrderManager.place_grid_order\<close> (lines 23-175).\<close>

definition place_grid_order ::
  "pow \<Rightarrow> logger \<Rightarrow> 'w client \<Rightarrow> string \<Rightarrow> string \<Rightarrow> pyfloat \<Rightarrow> pyfloat \<Rightarrow> pyfloat \<Rightarrow> int \<Rightarrow>
   string \<Rightarrow> string \<Rightarrow> 'w \<Rightarrow> (error + grid_report) \<times> 'w" where
  "place_grid_order float_pow lg submit symbol0 side0 total_quantity0 upper_price0 lower_price0
       num_grids grid_type time_in_force w =
     (case validate_symbol symbol0 of Inl e \<Rightarrow> (Inl e, w) | Inr symbol \<Rightarrow>
     (case validate_side side0 of Inl e \<Rightarrow> (Inl e, w) | Inr side \<Rightarrow>
     (case validate_quantity total_quantity0 of Inl e \<Rightarrow> (Inl e, w) | Inr total_quantity \<Rightarrow>
     (case validate_price upper_price0 of Inl e \<Rightarrow> (Inl e, w) | Inr upper_price \<Rightarrow>
     (case validate_price lower_price0 of Inl e \<Rightarrow> (Inl e, w) | Inr lower_price \<Rightarrow>
      if fle upper_price lower_price then
        (Inl (ValidationError ''Upper price must be greater than lower price''), w)
      else if num_grids < 2 then
        (Inl (ValidationError ''Number of grids must be at least 2''), w)
      else if num_grids > 50 then
        (Inl (ValidationError ''Number of grids cannot exceed 50''), w)
      else if grid_type \<notin> set [''ARITHMETIC'', ''GEOMETRIC''] then
        (Inl (ValidationError (''Invalid grid type: '' @ grid_type @ ''. Must be ''
                @ quoted ''ARITHMETIC'' @ '' or '' @ quoted ''GEOMETRIC'')), w)
      else
     (case calculate_grid_prices float_pow lower_price upper_price num_grids grid_type of
        Inl e \<Rightarrow> (Inl e, w) | Inr grid_prices \<Rightarrow>
     (case calculate_grid_quantities total_quantity num_grids side of
        Inl e \<Rightarrow> (Inl e, w) | Inr grid_quantities \<Rightarrow>
     (let st = fold (grid_leg lg submit symbol side time_in_force)
                 (enumerate 0 (zip grid_prices grid_quantities))
                 \<lparr>placed = [], failed = [], world = w\<rparr>
      in (case success_rate (length (placed st)) num_grids of
            Inl e \<Rightarrow> (Inl e, world st)
          | Inr rate \<Rightarrow>
              (let result = \<lparr>g_symbol = symbol, g_side = side,
                             g_total_quantity = total_quantity,
                             g_upper_price = upper_price, g_lower_price = lower_price,
                             g_num_grids = num_grids, g_grid_type = grid_type,
                             g_placed_orders = placed st, g_failed_orders = failed st,
                             g_success_rate = rate,
                             g_grid_prices = grid_prices,
                             g_grid_quantities = grid_quantities\<rparr>
               in (case info_with_extra_data lg of
                     Some e \<Rightarrow> (Inl e, world st)
                   | None \<Rightarrow> (Inr result, world st))))))))))))"

record martingale_report =
  m_symbol :: string
  m_side :: string
  m_base_quantity :: pyfloat
  m_total_quantity :: pyfloat
  m_upper_price :: pyfloat
  m_lower_price :: pyfloat
  m_num_grids :: int
  m_grid_type :: string
  m_multiplier :: pyfloat
  m_placed_orders :: "placed_order list"
  m_failed_orders :: "failed_order list"
  m_success_rate :: pyfloat
  m_grid_prices :: "pyfloat list"
  m_grid_quantities :: "pyfloat list"

text \<open>
  The quantity loop of \<open>place_martingale_grid\<close> (lines 217-221): the list built so
  far and \<open>current_quantity\<close>, which each iteration multiplies by the multiplier.
\<close>

definition martingale_quantities :: "pyfloat \<Rightarrow> pyfloat \<Rightarrow> int \<Rightarrow> pyfloat list" where
  "martingale_quantities base_quantity multiplier num_grids =
     fst (fold (\<lambda>i (grid_quantities, current_quantity).
                  (grid_quantities @ [current_quantity], fmul current_quantity multiplier))
            (py_range num_grids) ([], base_quantity))"

text \<open>
  One iteration of the order loop of \<open>place_martingale_grid\<close> (lines 246-292). The
  argument \<open>multiplier ** i\<close> of the \<open>logger.info\<close> call (line 270) is evaluated inside
  the \<open>try\<close>, after the append to \<open>placed_orders\<close> and before the call; whatever it
  raises is handled like a failure of the order.
\<close>

definition martingale_leg ::
  "pow \<Rightarrow> logger \<Rightarrow> 'w client \<Rightarrow> string \<Rightarrow> string \<Rightarrow> pyfloat \<Rightarrow> nat \<times> pyfloat \<times> pyfloat \<Rightarrow>
   (placed_order, 'w) grid_state \<Rightarrow> (placed_order, 'w) grid_state" where
  "martingale_leg float_pow lg submit symbol side multiplier leg st =
     (case leg of (i, price, quantity) \<Rightarrow>
        (let failure = (\<lambda>e. \<lparr>fo_grid_index = i + 1, fo_price = price,
                               fo_quantity = quantity, fo_error = e\<rparr>)
         in case submit (LimitOrder symbol side quantity (Some price) ''GTC'') (world st) of
              (Inl e, w') \<Rightarrow> st\<lparr>failed := failed st @ [failure e], world := w'\<rparr>
            | (Inr order_result, w') \<Rightarrow>
                (let st' = st\<lparr>placed := placed st @
                                  [\<lparr>po_grid_index = i + 1, po_price = price,
                                    po_quantity = quantity, po_side = side,
                                    po_order_id = orderId order_result,
                                    po_status = status order_result\<rparr>],
                                world := w'\<rparr>
                 in case (case float_of_int (int i) of
                            Inl e \<Rightarrow> Inl e
                          | Inr fi \<Rightarrow> float_pow multiplier fi) of
                      Inl e \<Rightarrow> st'\<lparr>failed := failed st' @ [failure e]\<rparr>
                    | Inr level \<Rightarrow>
                        (case info_with_extra_data lg of
                           None \<Rightarrow> st'
                         | Some e \<Rightarrow> st'\<lparr>failed := failed st' @ [failure e]\<rparr>))))"

text \<open>\<open>GridOrderManager.place_martingale_grid\<close> (lines 177-325).\<close>

definition place_martingale_grid ::
  "pow \<Rightarrow> logger \<Rightarrow> 'w client \<Rightarrow> string \<Rightarrow> string \<Rightarrow> pyfloat \<Rightarrow> pyfloat \<Rightarrow> pyfloat \<Rightarrow> int \<Rightarrow>
   pyfloat \<Rightarrow> string \<Rightarrow> 'w \<Rightarrow> (error + martingale_report) \<times> 'w" where
  "place_martingale_grid float_pow lg submit symbol0 side0 base_quantity0 upper_price0
       lower_price0 num_grids multiplier grid_type w =
     (case validate_symbol symbol0 of Inl e \<Rightarrow> (Inl e, w) | Inr symbol \<Rightarrow>
     (case validate_side side0 of Inl e \<Rightarrow> (Inl e, w) | Inr side \<Rightarrow>
     (case validate_quantity base_quantity0 of Inl e \<Rightarrow> (Inl e, w) | Inr base_quantity \<Rightarrow>
     (case validate_price upper_price0 of Inl e \<Rightarrow> (Inl e, w) | Inr upper_price \<Rightarrow>
     (case validate_price lower_price0 of Inl e \<Rightarrow> (Inl e, w) | Inr lower_price \<Rightarrow>
      if fle upper_price lower_price then
        (Inl (ValidationError ''Upper price must be greater than lower price''), w)
      else if fle multiplier (Fin 1) then
        (Inl (ValidationError ''Multiplier must be greater than 1.0''), w)
      else if num_grids < 2 then
        (Inl (ValidationError ''Number of grids must be at least 2''), w)
      else
     (case calculate_grid_prices float_pow lower_price upper_price num_grids grid_type of
        Inl e \<Rightarrow> (Inl e, w) | Inr grid_prices \<Rightarrow>
     (let grid_quantities = martingale_quantities base_quantity multiplier num_grids;
          st = fold (martingale_leg float_pow lg submit symbol side multiplier)
                 (enumerate 0 (zip grid_prices grid_quantities))
                 \<lparr>placed = [], failed = [], world = w\<rparr>
      in (case success_rate (length (placed st)) num_grids of
            Inl e \<Rightarrow> (Inl e, world st)
          | Inr rate \<Rightarrow>
              (let result = \<lparr>m_symbol = symbol, m_side = side,
                             m_base_quantity = base_quantity,
                             m_total_quantity = py_sum grid_quantities,
                             m_upper_price = upper_price, m_lower_price = lower_price,
                             m_num_grids = num_grids, m_grid_type = grid_type,
                             m_multiplier = multiplier,
                             m_placed_orders = placed st, m_failed_orders = failed st,
                             m_success_rate = rate,
                             m_grid_prices = grid_prices,
                             m_grid_quantities = grid_quantities\<rparr>
               in (case info_with_extra_data lg of
                     Some e \<Rightarrow> (Inl e, world st)
                   | None \<Rightarrow> (Inr result, world st)))))))))))"

record dca_report =
  d_symbol :: string
  d_side :: string
  d_total_usdt :: pyfloat
  d_total_quantity :: pyfloat
  d_upper_price :: pyfloat
  d_lower_price :: pyfloat
  d_num_grids :: int
  d_grid_type :: string
  d_usdt_per_grid :: pyfloat
  d_placed_orders :: "dca_placed_order list"
  d_failed_orders :: "failed_order list"
  d_success_rate :: pyfloat
  d_grid_prices :: "pyfloat list"
  d_grid_quantities :: "pyfloat list"

text \<open>One iteration of the order loop of \<open>place_dca_grid\<close> (lines 394-441).\<close>

definition dca_leg ::
  "logger \<Rightarrow> 'w client \<Rightarrow> string \<Rightarrow> string \<Rightarrow> pyfloat \<Rightarrow> nat \<times> pyfloat \<times> pyfloat \<Rightarrow>
   (dca_placed_order, 'w) grid_state \<Rightarrow> (dca_placed_order, 'w) grid_state" where
  "dca_leg lg submit symbol side usdt_per_grid leg st =
     (case leg of (i, price, quantity) \<Rightarrow>
        (let failure = (\<lambda>e. \<lparr>fo_grid_index = i + 1, fo_price = price,
                               fo_quantity = quantity, fo_error = e\<rparr>)
         in case submit (LimitOrder symbol side quantity (Some price) ''GTC'') (world st) of
              (Inl e, w') \<Rightarrow> st\<lparr>failed := failed st @ [failure e], world := w'\<rparr>
            | (Inr order_result, w') \<Rightarrow>
                (let st' = st\<lparr>placed := placed st @
                                  [\<lparr>po_grid_index = i + 1, po_price = price,
                                    po_quantity = quantity, po_side = side,
                                    po_order_id = orderId order_result,
                                    po_status = status order_result,
                                    po_usdt_amount = usdt_per_grid\<rparr>],
                                world := w'\<rparr>
                 in case info_with_extra_data lg of
                      None \<Rightarrow> st'
                    | Some e \<Rightarrow> st'\<lparr>failed := failed st' @ [failure e]\<rparr>)))"

text \<open>
  \<open>GridOrderManager.place_dca_grid\<close> (lines 327-473). It has no check of
  \<open>num_grids\<close> and none of \<open>grid_type\<close>.
\<close>

definition place_dca_grid ::
  "pow \<Rightarrow> logger \<Rightarrow> 'w client \<Rightarrow> string \<Rightarrow> string \<Rightarrow> pyfloat \<Rightarrow> pyfloat \<Rightarrow> pyfloat \<Rightarrow> int \<Rightarrow>
   string \<Rightarrow> 'w \<Rightarrow> (error + dca_report) \<times> 'w" where
  "place_dca_grid float_pow lg submit symbol0 side0 total_usdt upper_price0 lower_price0
       num_grids grid_type w =
     (case validate_symbol symbol0 of Inl e \<Rightarrow> (Inl e, w) | Inr symbol \<Rightarrow>
     (case validate_side side0 of Inl e \<Rightarrow> (Inl e, w) | Inr side \<Rightarrow>
      if fle total_usdt (Fin 0) then
        (Inl (ValidationError ''Total USDT amount must be positive''), w)
      else
     (case validate_price upper_price0 of Inl e \<Rightarrow> (Inl e, w) | Inr upper_price \<Rightarrow>
     (case validate_price lower_price0 of Inl e \<Rightarrow> (Inl e, w) | Inr lower_price \<Rightarrow>
      if fle upper_price lower_price then
        (Inl (ValidationError ''Upper price must be greater than lower price''), w)
      else
     (case calculate_grid_prices float_pow lower_price upper_price num_grids grid_type of
        Inl e \<Rightarrow> (Inl e, w) | Inr grid_prices \<Rightarrow>
     (case float_div_int total_usdt num_grids of
        Inl e \<Rightarrow> (Inl e, w) | Inr usdt_per_grid \<Rightarrow>
     (case try_map (\<lambda>price. float_div usdt_per_grid price) grid_prices of
        Inl e \<Rightarrow> (Inl e, w) | Inr grid_quantities \<Rightarrow>
     (let st = fold (dca_leg lg submit symbol side usdt_per_grid)
                 (enumerate 0 (zip grid_prices grid_quantities))
                 \<lparr>placed = [], failed = [], world = w\<rparr>
      in (case success_rate (length (placed st)) num_grids of
            Inl e \<Rightarrow> (Inl e, world st)
          | Inr rate \<Rightarrow>
              (let result = \<lparr>d_symbol = symbol, d_side = side,
                             d_total_usdt = total_usdt,
                             d_total_quantity = py_sum grid_quantities,
                             d_upper_price = upper_price, d_lower_price = lower_price,
                             d_num_grids = num_grids, d_grid_type = grid_type,
                             d_usdt_per_grid = usdt_per_grid,
                             d_placed_orders = placed st, d_failed_orders = failed st,
                             d_success_rate = rate,
                             d_grid_prices = grid_prices,
                             d_grid_quantities = grid_quantities\<rparr>
               in (case info_with_extra_data lg of
                     Some e \<Rightarrow> (Inl e, world st)
                   | None \<Rightarrow> (Inr result, world st))))))))))))"

section \<open>TWAPOrderManager (src/advanced/twap.py)\<close>

record executed_chunk =
  ec_chunk_index :: nat
  ec_quantity :: pyfloat
  ec_order_id :: "int option"
  ec_status :: "string option"
  ec_executed_qty :: pyfloat
  ec_cummulative_quote_qty :: pyfloat

record failed_chunk =
  fc_chunk_index :: nat
  fc_quantity :: pyfloat
  fc_error :: error

text \<open>The variables a TWAP loop updates, and the world.\<close>

record 'w twap_state =
  executed_chunks :: "executed_chunk list"
  failed_chunks :: "failed_chunk list"
  total_executed :: pyfloat
  total_cost :: pyfloat
  tworld :: 'w

record twap_report =
  t_symbol :: string
  t_side :: string
  t_total_quantity :: pyfloat
  t_duration_minutes :: int
  t_num_chunks :: int
  t_order_type :: string
  t_price :: "pyfloat option"
  t_total_executed :: pyfloat
  t_total_cost :: pyfloat
  t_average_price :: pyfloat
  t_executed_chunks :: "executed_chunk list"
  t_failed_chunks :: "failed_chunk list"
  t_success_rate :: pyfloat


text \<open>
  The \<open>try\<close> and \<open>except\<close> of one iteration of the loop of \<open>place_twap_order\<close>
  (lines 97-148). Both \<open>float(...)\<close> conversions are evaluated for the dictionary
  appended to \<open>executed_chunks\<close>, so a conversion that raises leaves that list and the
  totals unchanged. The totals are updated before \<open>logger.info\<close> is called.
\<close>

definition twap_chunk ::
  "logger \<Rightarrow> 'w client \<Rightarrow> string \<Rightarrow> string \<Rightarrow> pyfloat \<Rightarrow> string \<Rightarrow> pyfloat option \<Rightarrow> string \<Rightarrow>
   nat \<Rightarrow> 'w twap_state \<Rightarrow> 'w twap_state" where
  "twap_chunk lg submit symbol side chunk_quantity order_type price time_in_force i st =
     (let failure = (\<lambda>e. \<lparr>fc_chunk_index = i + 1, fc_quantity = chunk_quantity,
                           fc_error = e\<rparr>);
          request = (if order_type = ''MARKET'' then MarketOrder symbol side chunk_quantity
                     else LimitOrder symbol side chunk_quantity price time_in_force)
      in case submit request (tworld st) of
           (Inl e, w') \<Rightarrow> st\<lparr>failed_chunks := failed_chunks st @ [failure e], tworld := w'\<rparr>
         | (Inr chunk_result, w') \<Rightarrow>
             (case to_float (executedQty chunk_result) of
                Inl e \<Rightarrow> st\<lparr>failed_chunks := failed_chunks st @ [failure e], tworld := w'\<rparr>
              | Inr executed_qty \<Rightarrow>
                  (case to_float (cummulativeQuoteQty chunk_result) of
                     Inl e \<Rightarrow>
                       st\<lparr>failed_chunks := failed_chunks st @ [failure e], tworld := w'\<rparr>
                   | Inr quote_qty \<Rightarrow>
                       (let st' = st\<lparr>executed_chunks := executed_chunks st @
                                         [\<lparr>ec_chunk_index = i + 1,
                                           ec_quantity = chunk_quantity,
                                           ec_order_id = orderId chunk_result,
                                           ec_status = status chunk_result,
                                           ec_executed_qty = executed_qty,
                                           ec_cummulative_quote_qty = quote_qty\<rparr>],
                                       total_executed := fadd (total_executed st) executed_qty,
                                       total_cost := fadd (total_cost st) quote_qty,
                                       tworld := w'\<rparr>
                        in case info_with_extra_data lg of
                             None \<Rightarrow> st'
                           | Some e \<Rightarrow>
                               st'\<lparr>failed_chunks := failed_chunks st' @ [failure e]\<rparr>))))"

text \<open>
  The loop \<open>for i in range(num_chunks)\<close> (lines 96-152) over the remaining indices:
  the state in which it ends, and the exception of \<open>time.sleep\<close> if that ended it.
\<close>

fun twap_loop ::
  "(nat \<Rightarrow> 'w twap_state \<Rightarrow> 'w twap_state) \<Rightarrow> int \<Rightarrow> pyfloat \<Rightarrow> nat list \<Rightarrow> 'w twap_state \<Rightarrow>
   error option \<times> 'w twap_state" where
  "twap_loop chunk num_chunks interval_seconds [] st = (None, st)"
| "twap_loop chunk num_chunks interval_seconds (i # rest) st =
     (let st' = chunk i st in
      if int i < num_chunks - 1 then
        (case sleep interval_seconds of
           Inl e \<Rightarrow> (Some e, st')
         | Inr u \<Rightarrow> twap_loop chunk num_chunks interval_seconds rest st')
      else twap_loop chunk num_chunks interval_seconds rest st')"

text \<open>\<open>avg_price = total_cost / total_executed if total_executed > 0 else 0\<close>.\<close>

definition average_price :: "pyfloat \<Rightarrow> pyfloat \<Rightarrow> error + pyfloat" where
  "average_price cost executed =
     (if flt (Fin 0) executed then float_div cost executed else Inr (Fin 0))"

text \<open>\<open>TWAPOrderManager.place_twap_order\<close> (lines 23-188).\<close>

definition place_twap_order ::
  "logger \<Rightarrow> 'w client \<Rightarrow> string \<Rightarrow> string \<Rightarrow> pyfloat \<Rightarrow> int \<Rightarrow> int \<Rightarrow> string \<Rightarrow>
   pyfloat option \<Rightarrow> string \<Rightarrow> 'w \<Rightarrow> (error + twap_report) \<times> 'w" where
  "place_twap_order lg submit symbol0 side0 total_quantity0 duration_minutes num_chunks
       order_type price0 time_in_force w =
     (case validate_symbol symbol0 of Inl e \<Rightarrow> (Inl e, w) | Inr symbol \<Rightarrow>
     (case validate_side side0 of Inl e \<Rightarrow> (Inl e, w) | Inr side \<Rightarrow>
     (case validate_quantity total_quantity0 of Inl e \<Rightarrow> (Inl e, w) | Inr total_quantity \<Rightarrow>
      if order_type \<notin> set [''MARKET'', ''LIMIT''] then
        (Inl (ValidationError (''Invalid order type: '' @ order_type @ ''. Must be ''
                @ quoted ''MARKET'' @ '' or '' @ quoted ''LIMIT'')), w)
      else if order_type = ''LIMIT'' \<and> price0 = None then
        (Inl (ValidationError ''Price is required for LIMIT orders''), w)
      else
     (case (if order_type = ''LIMIT'' then
              (case price0 of
                 None \<Rightarrow> Inr None
               | Some p \<Rightarrow> (case validate_price p of Inl e \<Rightarrow> Inl e | Inr p' \<Rightarrow> Inr (Some p')))
            else Inr price0) of
        Inl e \<Rightarrow> (Inl e, w) | Inr price \<Rightarrow>
      if duration_minutes < 1 then
        (Inl (ValidationError ''Duration must be at least 1 minute''), w)
      else if num_chunks < 2 then
        (Inl (ValidationError ''Number of chunks must be at least 2''), w)
      else if num_chunks > 100 then
        (Inl (ValidationError ''Number of chunks cannot exceed 100''), w)
      else
     (case float_div_int total_quantity num_chunks of
        Inl e \<Rightarrow> (Inl e, w) | Inr chunk_quantity0 \<Rightarrow>
     (case int_true_div (duration_minutes * 60) (num_chunks - 1) of
        Inl e \<Rightarrow> (Inl e, w) | Inr interval_seconds \<Rightarrow>
     (case validate_quantity chunk_quantity0 of
        Inl e \<Rightarrow> (Inl e, w) | Inr chunk_quantity \<Rightarrow>
     (case twap_loop
             (twap_chunk lg submit symbol side chunk_quantity order_type price time_in_force)
             num_chunks interval_seconds (py_range num_chunks)
             \<lparr>executed_chunks = [], failed_chunks = [], total_executed = Fin 0,
               total_cost = Fin 0, tworld = w\<rparr> of
        (Some e, st) \<Rightarrow> (Inl e, tworld st)
      | (None, st) \<Rightarrow>
     (case average_price (total_cost st) (total_executed st) of
        Inl e \<Rightarrow> (Inl e, tworld st) | Inr avg_price \<Rightarrow>
     (case success_rate (length (executed_chunks st)) num_chunks of
        Inl e \<Rightarrow> (Inl e, tworld st) | Inr rate \<Rightarrow>
     (let result = \<lparr>t_symbol = symbol, t_side = side, t_total_quantity = total_quantity,
                    t_duration_minutes = duration_minutes, t_num_chunks = num_chunks,
                    t_order_type = order_type, t_price = price,
                    t_total_executed = total_executed st, t_total_cost = total_cost st,
                    t_average_price = avg_price,
                    t_executed_chunks = executed_chunks st,
                    t_failed_chunks = failed_chunks st,
                    t_success_rate = rate\<rparr>
      in (case info_with_extra_data lg of
            Some e \<Rightarrow> (Inl e, tworld st)
          | None \<Rightarrow> (Inr result, tworld st)))))))))))))"






section \<open>Observing a run\<close>

text \<open>
  To state which orders a run submits, and in which order, the client is wrapped so
  that the world also carries the list of the requests made so far. The wrapper adds
  nothing else: the wrapped client answers as the client does.
\<close>

definition traced :: "'w client \<Rightarrow> ('w \<times> order_request list) client" where
  "traced submit request wl =
     (case wl of (w, requests) \<Rightarrow>
        (case submit request w of (outcome, w') \<Rightarrow> (outcome, (w', requests @ [request]))))"

text \<open>The quantity, the price and the side of a request.\<close>

fun request_quantity :: "order_request \<Rightarrow> pyfloat" where
  "request_quantity (LimitOrder symbol side quantity price time_in_force) = quantity"
| "request_quantity (MarketOrder symbol side quantity) = quantity"

fun request_price :: "order_request \<Rightarrow> pyfloat option" where
  "request_price (LimitOrder symbol side quantity price time_in_force) = price"
| "request_price (MarketOrder symbol side quantity) = None"

fun request_side :: "order_request \<Rightarrow> string" where
  "request_side (LimitOrder symbol side quantity price time_in_force) = side"
| "request_side (MarketOrder symbol side quantity) = side"

text \<open>Three clients for concrete runs.\<close>

definition filled_ack :: order_ack where
  "filled_ack = \<lparr>orderId = Some 1, status = Some ''FILLED'',
                  executedQty = Num (Fin 1), cummulativeQuoteQty = Num (Fin 100)\<rparr>"

definition accepting_client :: "unit client" where
  "accepting_client request w = (Inr filled_ack, w)"


text \<open>The world counts the calls; the second call fails, every other succeeds.\<close>

definition second_call_fails :: "nat client" where
  "second_call_fails request calls =
     (if calls = 1 then (Inl (ApiException ''API Error 400: rejected''), calls + 1)
      else (Inr filled_ack, calls + 1))"

text \<open>A logger whose \<open>info\<close> accepts the keyword argument and returns.\<close>

definition keyword_logger :: logger where
  "keyword_logger = \<lparr>info_with_extra_data = None\<rparr>"

text \<open>
  \<open>python_pow\<close> restricted to the powers that can be evaluated by rational
  arithmetic, a finite base with an exponent that is a natural number; NaN elsewhere.
\<close>

definition integer_pow :: pow where
  "integer_pow x y =
     (case (x, y) of
        (Fin a, Fin b) \<Rightarrow>
          (if 0 \<le> b \<and> b = of_int \<lfloor>b\<rfloor> then
             (case to_double (a ^ nat \<lfloor>b\<rfloor>) of
                Fin r \<Rightarrow> Inr (Fin r)
              | PInf \<Rightarrow> Inl OverflowError
              | NInf \<Rightarrow> Inl OverflowError
              | NaN \<Rightarrow> Inl OverflowError)
           else Inr NaN)
      | _ \<Rightarrow> Inr NaN)"

section \<open>Properties of the float arithmetic\<close>

subsection \<open>Powers of two\<close>

lemma two_powi_pos: "0 < (2::real) powi k"
  by (simp add: zero_less_power_int)

lemma two_powi_Suc: "(2::real) powi (k + 1) = 2 * 2 powi k"
  by (simp add: power_int_add)

lemma two_powi_pred: "(2::real) powi (k - 1) = 2 powi k / 2"
  by (simp add: power_int_diff)

lemma two_powi_le: "k \<le> l \<Longrightarrow> (2::real) powi k \<le> 2 powi l"
  by (rule power_int_increasing) simp_all

lemma two_powi_less: "k < l \<Longrightarrow> (2::real) powi k < 2 powi l"
  by (rule power_int_strict_increasing) simp_all

lemma two_powi_le_iff: "(2::real) powi k \<le> 2 powi l \<longleftrightarrow> k \<le> l"
  using two_powi_le [of k l] two_powi_less [of l k] by (auto simp: not_le [symmetric])

lemma two_powi_less_iff: "(2::real) powi k < 2 powi l \<longleftrightarrow> k < l"
  using two_powi_le [of l k] two_powi_less [of k l] by (auto simp: not_less [symmetric])

lemma ilog2_bounds:
  "0 < x \<Longrightarrow> 2 powi (- int f) \<le> x \<Longrightarrow> x < 2 powi (int f + 1) \<Longrightarrow>
   2 powi (ilog2 f x) \<le> x \<and> x < 2 powi (ilog2 f x + 1)"
proof (induction f arbitrary: x)
  case 0
  then show ?case by simp
next
  case (Suc f)
  show ?case
  proof (cases "2 \<le> x")
    case True
    have a: "2 powi (- int f) \<le> x / 2"
    proof -
      have "(2::real) powi (- int f) \<le> 2 powi 0" by (rule two_powi_le) simp
      then show ?thesis using True by simp
    qed
    have b: "x / 2 < 2 powi (int f + 1)"
    proof -
      have "(2::real) powi (int (Suc f) + 1) = 2 * 2 powi (int f + 1)"
        using two_powi_Suc [of "int f + 1"] by (simp add: add.commute add.left_commute)
      then show ?thesis using Suc.prems(3) by simp
    qed
    have "2 powi (ilog2 f (x / 2)) \<le> x / 2 \<and> x / 2 < 2 powi (ilog2 f (x / 2) + 1)"
      by (rule Suc.IH) (use Suc.prems a b in simp_all)
    moreover have "ilog2 (Suc f) x = ilog2 f (x / 2) + 1" using True by simp
    moreover have "(2::real) powi (ilog2 f (x / 2) + 1) = 2 * 2 powi ilog2 f (x / 2)"
      by (rule two_powi_Suc)
    moreover have "(2::real) powi (ilog2 f (x / 2) + 1 + 1) = 2 * 2 powi (ilog2 f (x / 2) + 1)"
      by (rule two_powi_Suc)
    ultimately show ?thesis by (simp del: ilog2.simps)
  next
    case False
    show ?thesis
    proof (cases "x < 1")
      case True
      have a: "2 powi (- int f) \<le> x * 2"
      proof -
        have "(2::real) powi (- int f) = 2 * 2 powi (- int (Suc f))"
          using two_powi_Suc [of "- int (Suc f)"] by simp
        then show ?thesis using Suc.prems(2) by simp
      qed
      have b: "x * 2 < 2 powi (int f + 1)"
      proof -
        have "(2::real) powi 1 \<le> 2 powi (int f + 1)" by (rule two_powi_le) simp
        then show ?thesis using True by simp
      qed
      have "2 powi (ilog2 f (x * 2)) \<le> x * 2 \<and> x * 2 < 2 powi (ilog2 f (x * 2) + 1)"
        by (rule Suc.IH) (use Suc.prems a b in simp_all)
      moreover have "ilog2 (Suc f) x = ilog2 f (x * 2) - 1" using True \<open>\<not> 2 \<le> x\<close> by simp
      moreover have "(2::real) powi (ilog2 f (x * 2) - 1) = 2 powi ilog2 f (x * 2) / 2"
        by (rule two_powi_pred)
      moreover have "(2::real) powi (ilog2 f (x * 2) - 1 + 1) = 2 powi ilog2 f (x * 2)"
        by simp
      moreover have "(2::real) powi (ilog2 f (x * 2) + 1) = 2 * 2 powi ilog2 f (x * 2)"
        by (rule two_powi_Suc)
      ultimately show ?thesis by (simp del: ilog2.simps)
    next
      case False
      then show ?thesis using \<open>\<not> 2 \<le> x\<close> by simp
    qed
  qed
qed

lemma binade_unique:
  assumes "2 powi k \<le> (x::real)" "x < 2 powi (k + 1)" "2 powi l \<le> x" "x < 2 powi (l + 1)"
  shows "k = l"
proof -
  have "(2::real) powi k < 2 powi (l + 1)" using assms by linarith
  then have "k < l + 1" by (simp add: two_powi_less_iff)
  moreover have "(2::real) powi l < 2 powi (k + 1)" using assms by linarith
  then have "l < k + 1" by (simp add: two_powi_less_iff)
  ultimately show ?thesis by simp
qed

lemma ulp_exponent_binade:
  assumes "2 powi k \<le> \<bar>x\<bar>" "\<bar>x\<bar> < 2 powi (k + 1)" "- 1022 \<le> k" "k \<le> 1023"
  shows "ulp_exponent x = k - 52"
proof -
  have lo: "(2::real) powi (- 1022) \<le> \<bar>x\<bar>"
    using two_powi_le [OF assms(3)] assms(1) by linarith
  have pos: "0 < \<bar>x\<bar>" using assms(1) two_powi_pos [of k] by linarith
  have a: "2 powi (- int 2100) \<le> \<bar>x\<bar>"
  proof -
    have "(2::real) powi (- int 2100) \<le> 2 powi (- 1022)" by (rule two_powi_le) simp
    then show ?thesis using lo by linarith
  qed
  have b: "\<bar>x\<bar> < 2 powi (int 2100 + 1)"
  proof -
    have "(2::real) powi (k + 1) \<le> 2 powi (int 2100 + 1)"
      by (rule two_powi_le) (use assms(4) in simp)
    then show ?thesis using assms(2) by linarith
  qed
  have "2 powi (ilog2 2100 \<bar>x\<bar>) \<le> \<bar>x\<bar> \<and> \<bar>x\<bar> < 2 powi (ilog2 2100 \<bar>x\<bar> + 1)"
    by (rule ilog2_bounds [OF pos a b])
  then have "ilog2 2100 \<bar>x\<bar> = k"
    using binade_unique [of "ilog2 2100 \<bar>x\<bar>" "\<bar>x\<bar>" k] assms by simp
  then show ?thesis
    using lo by (simp add: ulp_exponent_def)
qed

lemma ulp_exponent_subnormal: "\<bar>x\<bar> < 2 powi (- 1022) \<Longrightarrow> ulp_exponent x = - 1074"
  by (simp add: ulp_exponent_def)

lemma binade_exists:
  assumes "2 powi (- 1022) \<le> \<bar>x\<bar>" "\<bar>x\<bar> < 2 ^ 1024"
  obtains k where "- 1022 \<le> k" "k \<le> 1023" "2 powi k \<le> \<bar>x\<bar>" "\<bar>x\<bar> < 2 powi (k + 1)"
    "ulp_exponent x = k - 52"
proof -
  define k where "k = ilog2 2100 \<bar>x\<bar>"
  have pos: "0 < \<bar>x\<bar>" using assms(1) two_powi_pos [of "- 1022"] by linarith
  have a: "2 powi (- int 2100) \<le> \<bar>x\<bar>"
  proof -
    have "(2::real) powi (- int 2100) \<le> 2 powi (- 1022)" by (rule two_powi_le) simp
    then show ?thesis using assms(1) by linarith
  qed
  have top: "(2::real) ^ 1024 = 2 powi 1024" by simp
  have b: "\<bar>x\<bar> < 2 powi (int 2100 + 1)"
  proof -
    have "(2::real) powi 1024 \<le> 2 powi (int 2100 + 1)" by (rule two_powi_le) simp
    then show ?thesis using assms(2) top by linarith
  qed
  have kb: "2 powi k \<le> \<bar>x\<bar> \<and> \<bar>x\<bar> < 2 powi (k + 1)"
    unfolding k_def by (rule ilog2_bounds [OF pos a b])
  have "(2::real) powi k < 2 powi 1024" using kb assms(2) top by linarith
  then have "k < 1024" by (simp only: two_powi_less_iff)
  then have k1: "k \<le> 1023" by linarith
  have "(2::real) powi (- 1022) < 2 powi (k + 1)" using kb assms(1) by linarith
  then have "- 1022 < k + 1" by (simp only: two_powi_less_iff)
  then have k2: "- 1022 \<le> k" by linarith
  have "ulp_exponent x = k - 52"
    using kb k1 k2 by (intro ulp_exponent_binade) simp_all
  then show ?thesis using that k1 k2 kb by blast
qed

lemma ulp_exponent_ge: "\<bar>x\<bar> < 2 ^ 1024 \<Longrightarrow> - 1074 \<le> ulp_exponent x"
proof (cases "\<bar>x\<bar> < 2 powi (- 1022)")
  case True
  then show ?thesis by (simp add: ulp_exponent_subnormal)
next
  case False
  assume "\<bar>x\<bar> < 2 ^ 1024"
  with False obtain k where "- 1022 \<le> k" "ulp_exponent x = k - 52"
    using binade_exists [of x] by (metis not_less)
  then show ?thesis by simp
qed

text \<open>The two facts about the unit in the last place that the proofs below use.\<close>

lemma ulp_upper: "\<bar>x\<bar> < 2 ^ 1024 \<Longrightarrow> \<bar>x\<bar> < 2 powi (ulp_exponent x + 53)"
proof (cases "\<bar>x\<bar> < 2 powi (- 1022)")
  case True
  have "(2::real) powi (- 1022) \<le> 2 powi (- 1074 + 53)" by (rule two_powi_le) simp
  then show ?thesis using True by (simp add: ulp_exponent_subnormal)
next
  case False
  assume "\<bar>x\<bar> < 2 ^ 1024"
  with False obtain k where "\<bar>x\<bar> < 2 powi (k + 1)" "ulp_exponent x = k - 52"
    using binade_exists [of x] by (metis not_less)
  moreover have "k - 52 + 53 = k + 1" by simp
  ultimately show ?thesis by (simp only:)
qed

lemma ulp_lower:
  "\<bar>x\<bar> < 2 ^ 1024 \<Longrightarrow> 2 powi (- 1022) \<le> \<bar>x\<bar> \<Longrightarrow> 2 powi (ulp_exponent x + 52) \<le> \<bar>x\<bar>"
proof -
  assume "\<bar>x\<bar> < 2 ^ 1024" "2 powi (- 1022) \<le> \<bar>x\<bar>"
  then obtain k where "2 powi k \<le> \<bar>x\<bar>" "ulp_exponent x = k - 52"
    using binade_exists [of x] by metis
  then show ?thesis by simp
qed

subsection \<open>Rounding to the nearest integer, ties to even\<close>

lemma rhe_cases:
  "round_half_even y = \<lfloor>y\<rfloor> \<or> round_half_even y = \<lfloor>y\<rfloor> + 1"
  by (simp add: round_half_even_def Let_def)

lemma rhe_error: "\<bar>of_int (round_half_even y) - y\<bar> \<le> 1 / 2"
proof -
  define d where "d = y - of_int \<lfloor>y\<rfloor>"
  have d: "0 \<le> d" "d < 1" unfolding d_def by linarith+
  have y: "y = of_int \<lfloor>y\<rfloor> + d" by (simp add: d_def)
  consider "round_half_even y = \<lfloor>y\<rfloor>" "d \<le> 1 / 2"
    | "round_half_even y = \<lfloor>y\<rfloor> + 1" "1 / 2 \<le> d"
    unfolding round_half_even_def Let_def d_def [symmetric]
    by (cases "d < 1 / 2"; cases "1 / 2 < d"; cases "even \<lfloor>y\<rfloor>") simp_all
  then show ?thesis
  proof cases
    case 1
    then show ?thesis using d by (subst (2) y) simp
  next
    case 2
    then show ?thesis using d by (subst (2) y) simp
  qed
qed

lemma rhe_of_int [simp]: "round_half_even (of_int m) = m"
  by (simp add: round_half_even_def)

lemma rhe_mono: "x \<le> y \<Longrightarrow> round_half_even x \<le> round_half_even y"
proof -
  assume xy: "x \<le> y"
  then have fl: "\<lfloor>x\<rfloor> \<le> \<lfloor>y\<rfloor>" by (rule floor_mono)
  show ?thesis
  proof (cases "\<lfloor>x\<rfloor> = \<lfloor>y\<rfloor>")
    case True
    then have "x - of_int \<lfloor>x\<rfloor> \<le> y - of_int \<lfloor>y\<rfloor>" using xy by simp
    then show ?thesis using True
      by (auto simp: round_half_even_def Let_def)
  next
    case False
    then have "\<lfloor>x\<rfloor> + 1 \<le> \<lfloor>y\<rfloor>" using fl by simp
    then show ?thesis using rhe_cases [of x] rhe_cases [of y] by linarith
  qed
qed

lemma rhe_ge: "of_int m \<le> y \<Longrightarrow> m \<le> round_half_even y"
  using rhe_mono [of "of_int m" y] by simp

lemma rhe_le: "y \<le> of_int m \<Longrightarrow> round_half_even y \<le> m"
  using rhe_mono [of y "of_int m"] by simp

lemma rhe_minus: "round_half_even (- y) = - round_half_even y"
proof (cases "y = of_int \<lfloor>y\<rfloor>")
  case True
  then obtain m where "y = of_int m" ..
  then have "- y = of_int (- m)" by simp
  then show ?thesis using \<open>y = of_int m\<close> by (metis rhe_of_int)
next
  case False
  then have fl: "\<lfloor>- y\<rfloor> = - \<lfloor>y\<rfloor> - 1"
    by (metis ceiling_altdef ceiling_def add_diff_cancel minus_diff_eq uminus_add_conv_diff minus_minus)
  have d: "0 < y - of_int \<lfloor>y\<rfloor>" using False by linarith
  show ?thesis
    using d by (auto simp: round_half_even_def Let_def fl)
qed

subsection \<open>Rounding to a double\<close>

lemma ulp_exponent_minus [simp]: "ulp_exponent (- x) = ulp_exponent x"
  by (simp add: ulp_exponent_def)

lemma rnd_minus: "rnd (- x) = - rnd x"
  by (simp add: rnd_def rhe_minus)

lemma rnd_0 [simp]: "rnd 0 = 0"
  by (simp add: rnd_def round_half_even_def)

lemma rnd_error: "\<bar>rnd x - x\<bar> \<le> 2 powi ulp_exponent x / 2"
proof -
  define u :: real where "u = 2 powi ulp_exponent x"
  have u: "0 < u" by (simp add: u_def two_powi_pos)
  have "\<bar>of_int (round_half_even (x / u)) - x / u\<bar> \<le> 1 / 2" by (rule rhe_error)
  then have "\<bar>of_int (round_half_even (x / u)) - x / u\<bar> * u \<le> 1 / 2 * u"
    using u by (intro mult_right_mono) simp_all
  moreover have "\<bar>of_int (round_half_even (x / u)) - x / u\<bar> * u
                 = \<bar>of_int (round_half_even (x / u)) * u - x\<bar>"
  proof -
    have "(of_int (round_half_even (x / u)) - x / u) * u
          = of_int (round_half_even (x / u)) * u - x"
      using u by (simp add: left_diff_distrib)
    moreover have "\<bar>of_int (round_half_even (x / u)) - x / u\<bar> * u
          = \<bar>(of_int (round_half_even (x / u)) - x / u) * u\<bar>"
      using u by (simp add: abs_mult)
    ultimately show ?thesis by simp
  qed
  ultimately have "\<bar>of_int (round_half_even (x / u)) * u - x\<bar> \<le> 1 / 2 * u"
    by (simp only:)
  then show ?thesis by (simp add: rnd_def u_def)
qed


lemma rnd_abs_error:
  assumes "\<bar>x\<bar> < 2 powi (- 1022)"
  shows "\<bar>rnd x - x\<bar> \<le> 2 powi (- 1075)"
proof -
  have "(2::real) powi (- 1074) / 2 = 2 powi (- 1075)"
    using two_powi_pred [of "- 1074"] by simp
  then show ?thesis
    using rnd_error [of x] assms by (simp add: ulp_exponent_subnormal)
qed

lemma rnd_int_multiple:
  assumes "ulp_exponent x \<le> e" "x = of_int m * 2 powi e"
  shows "rnd x = x"
proof -
  define d where "d = nat (e - ulp_exponent x)"
  define u :: real where "u = 2 powi ulp_exponent x"
  have u: "0 < u" by (simp add: u_def two_powi_pos)
  have e: "e = ulp_exponent x + int d" using assms(1) by (simp add: d_def)
  have "(2::real) powi e = u * 2 ^ d"
    unfolding u_def by (subst e) (simp add: power_int_add)
  then have xu: "x = of_int (m * 2 ^ d) * u"
    using assms(2) by simp
  then have "x / u = of_int (m * 2 ^ d)"
    using u by simp
  then have "round_half_even (x / u) = m * 2 ^ d"
    by (metis rhe_of_int)
  then have "rnd x = of_int (m * 2 ^ d) * u"
    by (simp add: rnd_def u_def)
  then show ?thesis using xu by simp
qed

lemma abs_of_int_less: "\<bar>m\<bar> < 2 ^ n \<Longrightarrow> \<bar>real_of_int m\<bar> < 2 ^ n"
proof -
  assume "\<bar>m\<bar> < 2 ^ n"
  then have "real_of_int \<bar>m\<bar> < real_of_int (2 ^ n)" by (simp only: of_int_less_iff)
  then show ?thesis by simp
qed

lemma rnd_dyadic:
  assumes "\<bar>m\<bar> < 2 ^ 53" "- 1074 \<le> e" "\<bar>of_int m * 2 powi e :: real\<bar> < 2 ^ 1024"
  shows "rnd (of_int m * 2 powi e) = of_int m * 2 powi e"
proof -
  define x :: real where "x = of_int m * 2 powi e"
  have "ulp_exponent x \<le> e"
  proof (cases "\<bar>x\<bar> < 2 powi (- 1022)")
    case True
    then show ?thesis using assms(2) by (simp add: ulp_exponent_subnormal)
  next
    case False
    then have "2 powi (ulp_exponent x + 52) \<le> \<bar>x\<bar>"
      using assms(3) by (intro ulp_lower) (simp_all add: x_def)
    moreover have "\<bar>x\<bar> < 2 ^ 53 * 2 powi e"
    proof -
      have "\<bar>real_of_int m\<bar> < 2 ^ 53" using assms(1) by (rule abs_of_int_less)
      then have "\<bar>real_of_int m\<bar> * 2 powi e < 2 ^ 53 * 2 powi e"
        using two_powi_pos [of e] by (intro mult_strict_right_mono)
      then show ?thesis by (simp add: x_def abs_mult)
    qed
    moreover have "(2::real) ^ 53 * 2 powi e = 2 powi (e + 53)"
      by (simp add: power_int_add)
    ultimately have "(2::real) powi (ulp_exponent x + 52) < 2 powi (e + 53)" by linarith
    then show ?thesis by (simp add: two_powi_less_iff)
  qed
  then have "rnd x = x" by (rule rnd_int_multiple) (simp add: x_def)
  then show ?thesis by (simp add: x_def)
qed

lemma rnd_of_int:
  assumes "\<bar>m\<bar> < 2 ^ 53"
  shows "rnd (of_int m) = of_int m"
proof -
  have "\<bar>real_of_int m\<bar> < 2 ^ 53" using assms by (rule abs_of_int_less)
  moreover have "(2::real) ^ 53 < 2 ^ 1024" by simp
  ultimately have "\<bar>real_of_int m * 2 powi 0\<bar> < 2 ^ 1024" by simp
  then show ?thesis using rnd_dyadic [OF assms, of 0] by simp
qed

lemma rnd_nonneg: "0 \<le> x \<Longrightarrow> 0 \<le> rnd x"
proof -
  assume "0 \<le> x"
  then have "of_int 0 \<le> x / 2 powi ulp_exponent x"
    using two_powi_pos [of "ulp_exponent x"] by simp
  then have "0 \<le> round_half_even (x / 2 powi ulp_exponent x)" by (rule rhe_ge)
  then show ?thesis
    using two_powi_pos [of "ulp_exponent x"] by (simp add: rnd_def)
qed

lemma rnd_nonpos: "x \<le> 0 \<Longrightarrow> rnd x \<le> 0"
  using rnd_nonneg [of "- x"] by (simp add: rnd_minus)

lemma ulp_exponent_mono:
  assumes "\<bar>x\<bar> \<le> \<bar>y\<bar>" "\<bar>y\<bar> < 2 ^ 1024"
  shows "ulp_exponent x \<le> ulp_exponent y"
proof (rule ccontr)
  assume "\<not> ulp_exponent x \<le> ulp_exponent y"
  then have gt: "ulp_exponent y < ulp_exponent x" by simp
  have x: "\<bar>x\<bar> < 2 ^ 1024" using assms by linarith
  have "- 1074 \<le> ulp_exponent y" using assms(2) by (rule ulp_exponent_ge)
  then have "ulp_exponent x \<noteq> - 1074" using gt by linarith
  then have "2 powi (- 1022) \<le> \<bar>x\<bar>"
    using ulp_exponent_subnormal [of x] by (metis not_less)
  then have "2 powi (ulp_exponent x + 52) \<le> \<bar>x\<bar>" using x by (intro ulp_lower)
  moreover have "\<bar>y\<bar> < 2 powi (ulp_exponent y + 53)" using assms(2) by (rule ulp_upper)
  ultimately have "(2::real) powi (ulp_exponent x + 52) < 2 powi (ulp_exponent y + 53)"
    using assms(1) by linarith
  then have "ulp_exponent x + 52 < ulp_exponent y + 53" by (simp only: two_powi_less_iff)
  then show False using gt by linarith
qed

lemma rnd_le_binade_top:
  assumes "0 \<le> x" "x < 2 ^ 1024"
  shows "rnd x \<le> 2 powi (ulp_exponent x + 53)"
proof -
  define u :: real where "u = 2 powi ulp_exponent x"
  have u: "0 < u" by (simp add: u_def two_powi_pos)
  have top: "(2::real) powi (ulp_exponent x + 53) = 2 ^ 53 * u"
    by (simp add: u_def power_int_add)
  have "\<bar>x\<bar> < 2 powi (ulp_exponent x + 53)" using assms by (intro ulp_upper) simp
  then have "x < 2 ^ 53 * u" using top assms(1) by simp
  then have "x / u < 2 ^ 53" using u by (simp add: pos_divide_less_eq)
  then have "x / u \<le> of_int (2 ^ 53)" by simp
  then have "round_half_even (x / u) \<le> 2 ^ 53" by (rule rhe_le)
  then have "real_of_int (round_half_even (x / u)) \<le> real_of_int (2 ^ 53)"
    by (simp only: of_int_le_iff)
  then have "real_of_int (round_half_even (x / u)) * u \<le> 2 ^ 53 * u"
    using u by (intro mult_right_mono) simp_all
  then show ?thesis using top by (simp add: rnd_def u_def)
qed

lemma rnd_ge_binade_bottom:
  assumes "2 powi (- 1022) \<le> x" "x < 2 ^ 1024"
  shows "2 powi (ulp_exponent x + 52) \<le> rnd x"
proof -
  define u :: real where "u = 2 powi ulp_exponent x"
  have u: "0 < u" by (simp add: u_def two_powi_pos)
  have bot: "(2::real) powi (ulp_exponent x + 52) = 2 ^ 52 * u"
    by (simp add: u_def power_int_add)
  have x0: "0 \<le> x" using assms(1) two_powi_pos [of "- 1022"] by linarith
  have "2 powi (ulp_exponent x + 52) \<le> \<bar>x\<bar>" using assms x0 by (intro ulp_lower) simp_all
  then have "2 ^ 52 * u \<le> x" using bot x0 by simp
  then have "2 ^ 52 \<le> x / u" using u by (simp add: pos_le_divide_eq)
  then have "of_int (2 ^ 52) \<le> x / u" by simp
  then have "2 ^ 52 \<le> round_half_even (x / u)" by (rule rhe_ge)
  then have "real_of_int (2 ^ 52) \<le> real_of_int (round_half_even (x / u))"
    by (simp only: of_int_le_iff)
  then have "2 ^ 52 * u \<le> real_of_int (round_half_even (x / u)) * u"
    using u by (intro mult_right_mono) simp_all
  then show ?thesis using bot by (simp add: rnd_def u_def)
qed

lemma rnd_mono_nonneg:
  assumes "0 \<le> x" "x \<le> y" "y < 2 ^ 1024"
  shows "rnd x \<le> rnd y"
proof -
  have y0: "0 \<le> y" using assms by linarith
  have x1: "x < 2 ^ 1024" using assms by linarith
  have le: "ulp_exponent x \<le> ulp_exponent y"
    using assms y0 by (intro ulp_exponent_mono) simp_all
  show ?thesis
  proof (cases "ulp_exponent x = ulp_exponent y")
    case True
    define u :: real where "u = 2 powi ulp_exponent y"
    have u: "0 < u" by (simp add: u_def two_powi_pos)
    have "x / u \<le> y / u" using assms(2) u by (simp add: divide_right_mono)
    then have "round_half_even (x / u) \<le> round_half_even (y / u)" by (rule rhe_mono)
    then have "real_of_int (round_half_even (x / u)) \<le> real_of_int (round_half_even (y / u))"
      by (simp only: of_int_le_iff)
    then have "real_of_int (round_half_even (x / u)) * u
               \<le> real_of_int (round_half_even (y / u)) * u"
      using u by (intro mult_right_mono) simp_all
    then show ?thesis by (simp add: rnd_def True u_def)
  next
    case False
    then have lt: "ulp_exponent x < ulp_exponent y" using le by simp
    have "- 1074 \<le> ulp_exponent x" using x1 assms(1) by (intro ulp_exponent_ge) simp
    then have "ulp_exponent y \<noteq> - 1074" using lt by linarith
    then have "2 powi (- 1022) \<le> \<bar>y\<bar>"
      using ulp_exponent_subnormal [of y] by (metis not_less)
    then have "2 powi (- 1022) \<le> y" using y0 by simp
    then have "2 powi (ulp_exponent y + 52) \<le> rnd y"
      using assms(3) by (rule rnd_ge_binade_bottom)
    moreover have "rnd x \<le> 2 powi (ulp_exponent x + 53)"
      using assms(1) x1 by (rule rnd_le_binade_top)
    moreover have "(2::real) powi (ulp_exponent x + 53) \<le> 2 powi (ulp_exponent y + 52)"
      by (rule two_powi_le) (use lt in simp)
    ultimately show ?thesis by linarith
  qed
qed

lemma rnd_mono:
  assumes "x \<le> y" "\<bar>x\<bar> < 2 ^ 1024" "\<bar>y\<bar> < 2 ^ 1024"
  shows "rnd x \<le> rnd y"
proof -
  consider "0 \<le> x" | "x < 0" "0 \<le> y" | "y < 0" by linarith
  then show ?thesis
  proof cases
    case 1
    then show ?thesis using assms by (intro rnd_mono_nonneg) simp_all
  next
    case 2
    then have "rnd x \<le> 0" "0 \<le> rnd y" by (simp_all add: rnd_nonpos rnd_nonneg)
    then show ?thesis by linarith
  next
    case 3
    then have "rnd (- y) \<le> rnd (- x)" using assms by (intro rnd_mono_nonneg) simp_all
    then show ?thesis by (simp add: rnd_minus)
  qed
qed

lemma rnd_two_powi:
  assumes "- 1074 \<le> k" "k \<le> 1023"
  shows "rnd (2 powi k) = 2 powi k"
proof -
  have "(2::real) powi k < 2 powi 1024" by (rule two_powi_less) (use assms in simp)
  then have "\<bar>of_int 1 * (2::real) powi k\<bar> < 2 ^ 1024"
    using two_powi_pos [of k] by simp
  then have "rnd (of_int 1 * 2 powi k) = of_int 1 * 2 powi k"
    using assms by (intro rnd_dyadic) simp_all
  then show ?thesis by simp
qed

lemma rnd_bound:
  assumes "\<bar>x\<bar> \<le> 2 powi k" "- 1074 \<le> k" "k \<le> 1023"
  shows "\<bar>rnd x\<bar> \<le> 2 powi k"
proof -
  have k: "(2::real) powi k < 2 ^ 1024"
  proof -
    have "(2::real) powi k < 2 powi 1024" by (rule two_powi_less) (use assms in simp)
    then show ?thesis by simp
  qed
  have p: "\<bar>(2::real) powi k\<bar> < 2 ^ 1024" using k two_powi_pos [of k] by simp
  have x: "\<bar>x\<bar> < 2 ^ 1024" using assms(1) k by linarith
  have "rnd x \<le> rnd (2 powi k)"
    using assms(1) x p by (intro rnd_mono) simp_all
  moreover have "rnd (- (2 powi k)) \<le> rnd x"
    using assms(1) x p by (intro rnd_mono) simp_all
  ultimately show ?thesis
    using rnd_two_powi [OF assms(2,3)] by (simp add: rnd_minus abs_le_iff)
qed

subsection \<open>to_double\<close>

lemma to_double_Fin:
  assumes "\<bar>x\<bar> \<le> 2 powi 1023"
  shows "to_double x = Fin (rnd x)"
proof -
  have "\<bar>rnd x\<bar> \<le> 2 powi 1023" using assms by (rule rnd_bound) simp_all
  moreover have "(2::real) powi 1023 < 2 ^ 1024" by simp
  ultimately have "\<bar>rnd x\<bar> < 2 ^ 1024" "\<bar>x\<bar> < 2 ^ 1024" using assms by linarith+
  then show ?thesis by (simp add: to_double_def Let_def not_le [symmetric])
qed

lemma to_double_eval:
  assumes "2 powi k \<le> \<bar>x\<bar>" "\<bar>x\<bar> < 2 powi (k + 1)" "- 1022 \<le> k" "k \<le> 1022"
    "round_half_even (x / 2 powi (k - 52)) = m"
  shows "to_double x = Fin (of_int m * 2 powi (k - 52))"
proof -
  have ue: "ulp_exponent x = k - 52" using assms by (intro ulp_exponent_binade) simp_all
  have "(2::real) powi (k + 1) \<le> 2 powi 1023" by (rule two_powi_le) (use assms in simp)
  then have "\<bar>x\<bar> \<le> 2 powi 1023" using assms(2) by linarith
  then have "to_double x = Fin (rnd x)" by (rule to_double_Fin)
  then show ?thesis using assms(5) by (simp add: rnd_def ue)
qed

lemma to_double_eval_subnormal:
  assumes "\<bar>x\<bar> < 2 powi (- 1022)" "round_half_even (x / 2 powi (- 1074)) = m"
  shows "to_double x = Fin (of_int m * 2 powi (- 1074))"
proof -
  have "(2::real) powi (- 1022) \<le> 2 powi 1023" by (rule two_powi_le) simp
  then have "\<bar>x\<bar> \<le> 2 powi 1023" using assms(1) by linarith
  then have "to_double x = Fin (rnd x)" by (rule to_double_Fin)
  then show ?thesis using assms by (simp add: rnd_def ulp_exponent_subnormal)
qed

lemma to_double_of_int:
  assumes "\<bar>m\<bar> < 2 ^ 53"
  shows "to_double (of_int m) = Fin (of_int m)"
proof -
  have "\<bar>real_of_int m\<bar> < 2 ^ 53" using assms by (rule abs_of_int_less)
  moreover have "(2::real) ^ 53 \<le> 2 powi 1023" by simp
  ultimately have "\<bar>real_of_int m\<bar> \<le> 2 powi 1023" by linarith
  then have "to_double (of_int m) = Fin (rnd (of_int m))" by (rule to_double_Fin)
  then show ?thesis using assms by (simp add: rnd_of_int)
qed

subsection \<open>Doubles that are computed exactly\<close>

lemma to_double_0: "to_double 0 = Fin 0"
  using to_double_of_int [of 0] by simp

lemma to_double_1: "to_double 1 = Fin 1"
  using to_double_of_int [of 1] by simp

lemma to_double_numeral:
  "(numeral k :: int) < 2 ^ 53 \<Longrightarrow> to_double (numeral k) = Fin (numeral k)"
  using to_double_of_int [of "numeral k"] by simp

lemma to_double_neg_numeral:
  "(numeral k :: int) < 2 ^ 53 \<Longrightarrow> to_double (- numeral k) = Fin (- numeral k)"
  using to_double_of_int [of "- numeral k"] by simp

lemmas double_simps = to_double_0 to_double_1 to_double_numeral to_double_neg_numeral

lemma float_of_int_small: "\<bar>i\<bar> < 2 ^ 53 \<Longrightarrow> float_of_int i = Inr (Fin (of_int i))"
  by (simp add: float_of_int_def to_double_of_int)

lemma float_of_int_nat: "n < 2 ^ 53 \<Longrightarrow> float_of_int (int n) = Inr (Fin (real n))"
proof -
  assume "n < 2 ^ 53"
  then have "int n < 2 ^ 53" by (metis of_nat_less_numeral_power_cancel_iff)
  then have "\<bar>int n\<bar> < 2 ^ 53" by simp
  then show ?thesis using float_of_int_small [of "int n"] by simp
qed

lemma to_double_thousandth: "to_double (1 / 1000) = Fin (1152921504606847 / 1152921504606846976)"
  using to_double_eval [of "- 10" "(1 / 1000)" "4611686018427388"]
  by (simp add: round_half_even_def)

lemma to_double_ten_thousandth: "to_double (1 / 10000) = Fin (7378697629483821 / 73786976294838206464)"
  using to_double_eval [of "- 14" "(1 / 10000)" "7378697629483821"]
  by (simp add: round_half_even_def)

lemma to_double_fifth: "to_double (1 / 5) = Fin (3602879701896397 / 18014398509481984)"
  using to_double_eval [of "- 3" "(1 / 5)" "7205759403792794"]
  by (simp add: round_half_even_def)

lemma to_double_tenth: "to_double (1 / 10) = Fin (3602879701896397 / 36028797018963968)"
  using to_double_eval [of "- 4" "(1 / 10)" "7205759403792794"]
  by (simp add: round_half_even_def)

lemma min_quantity_val: "min_quantity = Fin (1152921504606847 / 1152921504606846976)"
  by (simp add: min_quantity_def to_double_thousandth)

lemma min_price_val: "min_price = Fin (7378697629483821 / 73786976294838206464)"
  by (simp add: min_price_def to_double_ten_thousandth)

lemma validate_symbol_BTCUSDT: "validate_symbol ''BTCUSDT'' = Inr ''BTCUSDT''"
  by (simp add: validate_symbol_def upper_def upper_char_def strip_def is_space_def
        supported_symbols_def)

lemma validate_side_BUY: "validate_side ''BUY'' = Inr ''BUY''"
  by (simp add: validate_side_def upper_def upper_char_def strip_def is_space_def
        supported_sides_def)

lemma validate_quantity_one: "validate_quantity (Fin 1) = Inr (Fin 1)"
  by (simp add: validate_quantity_def min_quantity_val max_quantity_def)

lemma validate_quantity_fifth: "validate_quantity (to_double (1 / 5)) = Inr (to_double (1 / 5))"
  by (simp add: validate_quantity_def min_quantity_val max_quantity_def to_double_fifth)

lemma validate_price_bounds:
  "validate_price (Fin 200) = Inr (Fin 200)" "validate_price (Fin 100) = Inr (Fin 100)"
  by (simp_all add: validate_price_def min_price_val max_price_def)

lemma py_range_5: "py_range 5 = [0, 1, 2, 3, 4]"
  by (simp add: py_range_def eval_nat_numeral)

lemma replicate_5: "replicate 5 x = [x, x, x, x, x]"
  by (simp add: eval_nat_numeral)

lemma enumerate_5:
  "enumerate 0 (zip [p0, p1, p2, p3, p4] [q0, q1, q2, q3, q4])
     = [(0, p0, q0), (1, p1, q1), (2, p2, q2), (3, p3, q3), (4, p4, q4)]"
  by (simp add: eval_nat_numeral)

lemma five_prices:
  "calculate_grid_prices float_pow (Fin 100) (Fin 200) 5 ''ARITHMETIC''
     = Inr [Fin 100, Fin 125, Fin 150, Fin 175, Fin 200]"
  by (simp add: calculate_grid_prices_def float_div_int_def int_mul_float_def float_div_def
        fsub_def float_of_int_small double_simps py_range_5)

lemma five_quantities:
  "calculate_grid_quantities (Fin 1) 5 ''BUY''
     = Inr [to_double (1 / 5), to_double (1 / 5), to_double (1 / 5), to_double (1 / 5),
            to_double (1 / 5)]"
  by (simp add: calculate_grid_quantities_def float_div_int_def float_div_def
        float_of_int_small replicate_5)

lemma to_double_four_fifths: "to_double (4 / 5) = Fin (3602879701896397 / 4503599627370496)"
  using to_double_eval [of "- 1" "(4 / 5)" "7205759403792794"]
  by (simp add: round_half_even_def)

lemma to_double_eighty: "to_double (90071992547409925 / 1125899906842624) = Fin 80"
  using to_double_eval [of "6" "(90071992547409925 / 1125899906842624)" "5629499534213120"]
  by (simp add: round_half_even_def)

lemma success_rate_4_5: "success_rate 4 5 = Inr (Fin 80)"
  by (simp add: success_rate_def int_true_div_def float_mul_int_def float_of_int_small
        to_double_four_fifths to_double_eighty)

lemma success_rate_4_5_Suc: "success_rate (Suc (Suc (Suc (Suc 0)))) 5 = Inr (Fin 80)"
proof -
  have "Suc (Suc (Suc (Suc 0))) = 4" by simp
  then show ?thesis by (simp only: success_rate_4_5)
qed

lemma interval_150: "int_true_div (10 * 60) (5 - 1) = Inr (Fin 150)"
  by (simp add: int_true_div_def double_simps)

lemma sleep_150: "sleep (Fin 150) = Inr ()"
  by (simp add: sleep_def double_simps)

lemma chunk_fifth: "float_div_int (Fin 1) 5 = Inr (to_double (1 / 5))"
  by (simp add: float_div_int_def float_div_def float_of_int_small)

text \<open>
  Claim C1 against the code. The managers call \<open>logger.info(message, extra_data=...)\<close>
  inside the \<open>try\<close> of each leg, after the leg is appended to the placed list, and once
  more after the loop. With the repository's \<open>BotLogger\<close> that call raises
  \<open>TypeError\<close>. In a run of five legs whose second submission fails, all five legs are
  still submitted once each and in index order, but every leg the exchange accepted is
  recorded as placed and as failed (placed indices 1, 3, 4, 5, failed indices 1 to 5),
  and the run ends in \<open>TypeError\<close>: no report and no success rate is returned. The same
  holds for \<open>place_twap_order\<close>, and for every model of \<open>**\<close>.
\<close>

theorem continuation_breaks_with_BotLogger:
  "place_grid_order float_pow BotLogger (traced second_call_fails)
      ''BTCUSDT'' ''BUY'' (Fin 1) (Fin 200) (Fin 100) 5 ''ARITHMETIC'' ''GTC'' (0, [])
     = (Inl TypeError,
        (5, [LimitOrder ''BTCUSDT'' ''BUY'' (to_double (1 / 5)) (Some (Fin 100)) ''GTC'',
             LimitOrder ''BTCUSDT'' ''BUY'' (to_double (1 / 5)) (Some (Fin 125)) ''GTC'',
             LimitOrder ''BTCUSDT'' ''BUY'' (to_double (1 / 5)) (Some (Fin 150)) ''GTC'',
             LimitOrder ''BTCUSDT'' ''BUY'' (to_double (1 / 5)) (Some (Fin 175)) ''GTC'',
             LimitOrder ''BTCUSDT'' ''BUY'' (to_double (1 / 5)) (Some (Fin 200)) ''GTC'']))
   \<and> map po_grid_index (placed
         (fold (grid_leg BotLogger second_call_fails ''BTCUSDT'' ''BUY'' ''GTC'')
            (enumerate 0 (zip [Fin 100, Fin 125, Fin 150, Fin 175, Fin 200]
                           [to_double (1 / 5), to_double (1 / 5), to_double (1 / 5),
                            to_double (1 / 5), to_double (1 / 5)]))
            \<lparr>placed = [], failed = [], world = 0\<rparr>)) = [1, 3, 4, 5]
   \<and> map fo_grid_index (failed
         (fold (grid_leg BotLogger second_call_fails ''BTCUSDT'' ''BUY'' ''GTC'')
            (enumerate 0 (zip [Fin 100, Fin 125, Fin 150, Fin 175, Fin 200]
                           [to_double (1 / 5), to_double (1 / 5), to_double (1 / 5),
                            to_double (1 / 5), to_double (1 / 5)]))
            \<lparr>placed = [], failed = [], world = 0\<rparr>)) = [1, 2, 3, 4, 5]
   \<and> place_twap_order BotLogger (traced second_call_fails)
        ''BTCUSDT'' ''BUY'' (Fin 1) 10 5 ''MARKET'' None ''GTC'' (0, [])
     = (Inl TypeError,
        (5, [MarketOrder ''BTCUSDT'' ''BUY'' (to_double (1 / 5)),
             MarketOrder ''BTCUSDT'' ''BUY'' (to_double (1 / 5)),
             MarketOrder ''BTCUSDT'' ''BUY'' (to_double (1 / 5)),
             MarketOrder ''BTCUSDT'' ''BUY'' (to_double (1 / 5)),
             MarketOrder ''BTCUSDT'' ''BUY'' (to_double (1 / 5))]))"
proof (intro conjI)
  show "place_grid_order float_pow BotLogger (traced second_call_fails)
      ''BTCUSDT'' ''BUY'' (Fin 1) (Fin 200) (Fin 100) 5 ''ARITHMETIC'' ''GTC'' (0, [])
     = (Inl TypeError,
        (5, [LimitOrder ''BTCUSDT'' ''BUY'' (to_double (1 / 5)) (Some (Fin 100)) ''GTC'',
             LimitOrder ''BTCUSDT'' ''BUY'' (to_double (1 / 5)) (Some (Fin 125)) ''GTC'',
             LimitOrder ''BTCUSDT'' ''BUY'' (to_double (1 / 5)) (Some (Fin 150)) ''GTC'',
             LimitOrder ''BTCUSDT'' ''BUY'' (to_double (1 / 5)) (Some (Fin 175)) ''GTC'',
             LimitOrder ''BTCUSDT'' ''BUY'' (to_double (1 / 5)) (Some (Fin 200)) ''GTC'']))"
    by (simp add: place_grid_order_def validate_symbol_BTCUSDT validate_side_BUY
          validate_quantity_one validate_price_bounds five_prices five_quantities
          enumerate_5 grid_leg_def BotLogger_def traced_def second_call_fails_def
          filled_ack_def success_rate_4_5_Suc Let_def)
  show "map po_grid_index (placed
         (fold (grid_leg BotLogger second_call_fails ''BTCUSDT'' ''BUY'' ''GTC'')
            (enumerate 0 (zip [Fin 100, Fin 125, Fin 150, Fin 175, Fin 200]
                           [to_double (1 / 5), to_double (1 / 5), to_double (1 / 5),
                            to_double (1 / 5), to_double (1 / 5)]))
            \<lparr>placed = [], failed = [], world = 0\<rparr>)) = [1, 3, 4, 5]"
    by (simp add: enumerate_5 grid_leg_def BotLogger_def second_call_fails_def filled_ack_def
          Let_def)
  show "map fo_grid_index (failed
         (fold (grid_leg BotLogger second_call_fails ''BTCUSDT'' ''BUY'' ''GTC'')
            (enumerate 0 (zip [Fin 100, Fin 125, Fin 150, Fin 175, Fin 200]
                           [to_double (1 / 5), to_double (1 / 5), to_double (1 / 5),
                            to_double (1 / 5), to_double (1 / 5)]))
            \<lparr>placed = [], failed = [], world = 0\<rparr>)) = [1, 2, 3, 4, 5]"
    by (simp add: enumerate_5 grid_leg_def BotLogger_def second_call_fails_def filled_ack_def
          Let_def)
  show "place_twap_order BotLogger (traced second_call_fails)
        ''BTCUSDT'' ''BUY'' (Fin 1) 10 5 ''MARKET'' None ''GTC'' (0, [])
     = (Inl TypeError,
        (5, [MarketOrder ''BTCUSDT'' ''BUY'' (to_double (1 / 5)),
             MarketOrder ''BTCUSDT'' ''BUY'' (to_double (1 / 5)),
             MarketOrder ''BTCUSDT'' ''BUY'' (to_double (1 / 5)),
             MarketOrder ''BTCUSDT'' ''BUY'' (to_double (1 / 5)),
             MarketOrder ''BTCUSDT'' ''BUY'' (to_double (1 / 5))]))"
    by (simp add: place_twap_order_def validate_symbol_BTCUSDT validate_side_BUY
          validate_quantity_one validate_quantity_fifth py_range_5 chunk_fifth
          interval_150 [simplified] sleep_150
          twap_chunk_def BotLogger_def traced_def second_call_fails_def filled_ack_def
          to_float_def average_price_def float_div_def double_simps success_rate_4_5_Suc Let_def)
qed

section \<open>Properties of the schedule calculators\<close>

lemma try_map_total:
  assumes "\<And>x. x \<in> set xs \<Longrightarrow> f x = Inr (g x)"
  shows "try_map f xs = Inr (map g xs)"
  using assms by (induction xs) simp_all

lemma try_map_length: "try_map f xs = Inr ys \<Longrightarrow> length ys = length xs"
  by (induction xs arbitrary: ys) (auto split: sum.splits)

lemma try_map_nth:
  "try_map f xs = Inr ys \<Longrightarrow> i < length xs \<Longrightarrow> f (xs ! i) = Inr (ys ! i)"
proof (induction xs arbitrary: ys i)
  case Nil
  then show ?case by simp
next
  case (Cons x xs)
  then show ?case by (cases i) (auto split: sum.splits)
qed

lemma py_range_simps [simp]:
  "length (py_range n) = nat n" "i < nat n \<Longrightarrow> py_range n ! i = i"
  "set (py_range n) = {0..<nat n}"
  by (simp_all add: py_range_def)

lemma calculate_grid_prices_length:
  "calculate_grid_prices float_pow lo hi n grid_type = Inr ps \<Longrightarrow> length ps = nat n"
  by (auto simp: calculate_grid_prices_def dest!: try_map_length split: if_splits sum.splits)

text \<open>The three int conversions of a schedule of at most \<open>2^53\<close> legs are exact.\<close>

lemma float_of_int_index:
  "n \<le> 2 ^ 53 \<Longrightarrow> i < nat n \<Longrightarrow> float_of_int (int i) = Inr (Fin (real i))"
proof -
  assume "n \<le> 2 ^ 53" "i < nat n"
  then have "int i < 2 ^ 53" by linarith
  then have "\<bar>int i\<bar> < 2 ^ 53" by simp
  then show ?thesis using float_of_int_small [of "int i"] by simp
qed

lemma float_of_int_pred:
  "1 \<le> n \<Longrightarrow> n \<le> 2 ^ 53 \<Longrightarrow> float_of_int (n - 1) = Inr (Fin (of_int (n - 1)))"
  by (rule float_of_int_small) simp

lemma arithmetic_branch:
  assumes "2 \<le> n" "n \<le> 2 ^ 53"
  shows "calculate_grid_prices float_pow lo hi n ''ARITHMETIC''
           = Inr (map (\<lambda>i. fadd lo (fmul (Fin (real i))
                                  (fdiv (fsub hi lo) (Fin (of_int (n - 1))))))
                    [0..<nat n])"
proof -
  have c: "float_of_int (n - 1) = Inr (Fin (of_int (n - 1)))"
    using assms by (intro float_of_int_pred) simp_all
  have nz: "Fin (real_of_int (n - 1)) \<noteq> Fin 0" using assms by simp
  have "try_map (\<lambda>i. case int_mul_float (int i) (fdiv (fsub hi lo) (Fin (of_int (n - 1)))) of
                       Inl e \<Rightarrow> Inl e | Inr d \<Rightarrow> Inr (fadd lo d)) (py_range n)
          = Inr (map (\<lambda>i. fadd lo (fmul (Fin (real i))
                                 (fdiv (fsub hi lo) (Fin (of_int (n - 1)))))) (py_range n))"
    using assms by (intro try_map_total) (simp add: int_mul_float_def float_of_int_index)
  then show ?thesis
    using nz by (simp add: calculate_grid_prices_def float_div_int_def c float_div_def
                   py_range_def del: of_int_diff)
qed


section \<open>Strategy runs\<close>

lemma validate_symbol_Inl: "validate_symbol s = Inl e \<Longrightarrow> \<exists>msg. e = ValidationError msg"
  by (auto simp: validate_symbol_def Let_def split: if_splits)

lemma validate_side_Inl: "validate_side s = Inl e \<Longrightarrow> \<exists>msg. e = ValidationError msg"
  by (auto simp: validate_side_def Let_def split: if_splits)

lemma validate_quantity_Inl: "validate_quantity q = Inl e \<Longrightarrow> \<exists>msg. e = ValidationError msg"
  by (auto simp: validate_quantity_def split: if_splits)

lemma validate_price_Inl: "validate_price p = Inl e \<Longrightarrow> \<exists>msg. e = ValidationError msg"
  by (auto simp: validate_price_def split: if_splits)

lemma validate_quantity_Inr: "validate_quantity q = Inr q' \<Longrightarrow> q' = q"
  by (auto simp: validate_quantity_def split: if_splits)

lemma validate_price_Inr: "validate_price p = Inr p' \<Longrightarrow> p' = p"
  by (auto simp: validate_price_def split: if_splits)

lemma validate_side_Inr: "validate_side s = Inr s' \<Longrightarrow> s' = ''BUY'' \<or> s' = ''SELL''"
  by (auto simp: validate_side_def supported_sides_def Let_def split: if_splits)

lemma validate_side_sell: "validate_side ''sell'' = Inr ''SELL''"
  by (simp add: validate_side_def upper_def upper_char_def strip_def is_space_def
        supported_sides_def)

lemma validate_side_BOTH:
  "validate_side ''BOTH''
     = Inl (ValidationError ''Side BOTH is not supported. Supported sides: BUY, SELL'')"
  by (simp add: validate_side_def upper_def upper_char_def strip_def is_space_def
        supported_sides_def)

text \<open>The quantity loop of \<open>place_martingale_grid\<close> multiplies once per leg.\<close>

lemma funpow_fmul_swap:
  "fmul (((\<lambda>q. fmul q m) ^^ j) c) m = ((\<lambda>q. fmul q m) ^^ j) (fmul c m)"
  by (induction j) simp_all

lemma martingale_fold:
  "fold (\<lambda>i (grid_quantities, current_quantity).
            (grid_quantities @ [current_quantity], fmul current_quantity m)) xs (qs, cur)
     = (qs @ map (\<lambda>j. ((\<lambda>q. fmul q m) ^^ j) cur) [0..<length xs],
        ((\<lambda>q. fmul q m) ^^ length xs) cur)"
proof (induction xs arbitrary: qs cur)
  case Nil
  then show ?case by simp
next
  case (Cons x xs)
  have "map (\<lambda>j. ((\<lambda>q. fmul q m) ^^ j) cur) [0..<Suc (length xs)]
          = cur # map (\<lambda>j. ((\<lambda>q. fmul q m) ^^ j) (fmul cur m)) [0..<length xs]"
    by (simp add: map_upt_Suc funpow_fmul_swap del: upt_Suc)
  then show ?case using Cons.IH [of "qs @ [cur]" "fmul cur m"]
    by (simp add: funpow_fmul_swap del: upt_Suc)
qed

lemma martingale_quantities_eq:
  "martingale_quantities b m n = map (\<lambda>i. ((\<lambda>q. fmul q m) ^^ i) b) [0..<nat n]"
  by (simp add: martingale_quantities_def martingale_fold py_range_def)

lemma martingale_quantities_recurrence:
  "length (martingale_quantities b m n) = nat n"
  "0 < n \<Longrightarrow> martingale_quantities b m n ! 0 = b"
  "Suc i < nat n \<Longrightarrow>
     martingale_quantities b m n ! Suc i = fmul (martingale_quantities b m n ! i) m"
  by (simp_all add: martingale_quantities_eq)

lemma fold_traced:
  assumes "\<And>x st. snd (world (f x st)) = snd (world st) @ [g x]"
  shows "snd (world (fold f xs st)) = snd (world st) @ map g xs"
  using assms by (induction xs arbitrary: st) simp_all

lemma martingale_leg_traced:
  "snd (world (martingale_leg float_pow lg (traced submit) symbol side m leg st))
     = snd (world st) @ [case leg of (i, p, q) \<Rightarrow> LimitOrder symbol side q (Some p) ''GTC'']"
  by (cases leg; cases "world st")
     (simp add: martingale_leg_def traced_def Let_def split: prod.splits sum.splits option.splits)

lemma enumerate_zip_requests:
  assumes "length ps = n" and "length qs = n"
  shows "map (\<lambda>leg. case leg of (i, p, q) \<Rightarrow> r q p) (enumerate 0 (zip ps qs))
           = map (\<lambda>i. r (qs ! i) (ps ! i)) [0..<n]"
  using assms by (simp add: list_eq_iff_nth_eq nth_enumerate_eq)

lemma martingale_run:
  assumes "validate_symbol symbol = Inr symbol'" and "validate_side side = Inr side'"
    and "validate_quantity b = Inr b"
    and "validate_price hi = Inr hi" and "validate_price lo = Inr lo"
    and "\<not> fle hi lo" and "\<not> fle m (Fin 1)" and "2 \<le> n"
    and "calculate_grid_prices float_pow lo hi n grid_type = Inr ps"
  shows "snd (place_martingale_grid float_pow lg submit symbol side b hi lo n m grid_type w)
           = world (fold (martingale_leg float_pow lg submit symbol' side' m)
                      (enumerate 0 (zip ps (martingale_quantities b m n)))
                      \<lparr>placed = [], failed = [], world = w\<rparr>)"
  using assms
  by (simp add: place_martingale_grid_def Let_def split: sum.split option.split)

lemma martingale_requests:
  assumes "validate_symbol symbol = Inr symbol'" and "validate_side side = Inr side'"
    and "validate_quantity b = Inr b"
    and "validate_price hi = Inr hi" and "validate_price lo = Inr lo"
    and "\<not> fle hi lo" and "\<not> fle m (Fin 1)" and "2 \<le> n"
    and "calculate_grid_prices float_pow lo hi n grid_type = Inr ps"
  shows "snd (snd (place_martingale_grid float_pow lg (traced submit) symbol side b hi lo n m
                     grid_type (w, [])))
           = map (\<lambda>i. LimitOrder symbol' side' (martingale_quantities b m n ! i)
                        (Some (ps ! i)) ''GTC'')
               [0..<nat n]"
proof -
  have len: "length ps = nat n" using assms(9) by (rule calculate_grid_prices_length)
  have "snd (place_martingale_grid float_pow lg (traced submit) symbol side b hi lo n m
               grid_type (w, []))
          = world (fold (martingale_leg float_pow lg (traced submit) symbol' side' m)
                      (enumerate 0 (zip ps (martingale_quantities b m n)))
                      \<lparr>placed = [], failed = [], world = (w, [])\<rparr>)"
    using assms by (rule martingale_run)
  then have "snd (snd (place_martingale_grid float_pow lg (traced submit) symbol side b hi lo
                         n m grid_type (w, [])))
          = map (\<lambda>leg. case leg of (i, p, q) \<Rightarrow> LimitOrder symbol' side' q (Some p) ''GTC'')
              (enumerate 0 (zip ps (martingale_quantities b m n)))"
    by (simp add: fold_traced [where g = "\<lambda>leg. case leg of (i, p, q) \<Rightarrow>
                     LimitOrder symbol' side' q (Some p) ''GTC''", OF martingale_leg_traced])
  also have "\<dots> = map (\<lambda>i. LimitOrder symbol' side' (martingale_quantities b m n ! i)
                             (Some (ps ! i)) ''GTC'') [0..<nat n]"
    using len by (intro enumerate_zip_requests) (simp_all add: martingale_quantities_recurrence)
  finally show ?thesis .
qed

text \<open>
  Claim C3 against the code. The docstring of \<open>place_grid_order\<close> offers the side
  \<open>BOTH\<close> and its loop alternates BUY and SELL for it, but the call passes the side
  through \<open>validate_side\<close> first, which supports BUY and SELL only: whatever the other
  arguments, a call with side \<open>BOTH\<close> raises a \<open>ValidationError\<close> and submits nothing.
\<close>

theorem both_side_rejected:
  "\<exists>msg. place_grid_order float_pow lg submit symbol ''BOTH'' q hi lo n grid_type tif w
           = (Inl (ValidationError msg), w)"
  by (auto simp: place_grid_order_def validate_side_BOTH split: sum.splits
           dest: validate_symbol_Inl)

text \<open>The branch for the side \<open>BOTH\<close> in the loop of \<open>place_grid_order\<close>.\<close>

lemma grid_leg_both_alternates:
  "snd (world (grid_leg lg (traced submit) symbol ''BOTH'' tif (i, p, q) st))
     = snd (world st)
       @ [LimitOrder symbol (if even i then ''BUY'' else ''SELL'') q (Some p) tif]"
  by (cases "world st")
     (simp add: grid_leg_def traced_def Let_def even_iff_mod_2_eq_zero
           split: prod.splits sum.splits option.splits)

text \<open>Which entry points do check the leg count.\<close>

lemma grid_leg_count_checked:
  assumes "n < 2 \<or> 50 < n"
  shows "\<exists>msg. place_grid_order float_pow lg submit symbol side q hi lo n grid_type tif w
           = (Inl (ValidationError msg), w)"
  using assms
  by (auto simp: place_grid_order_def split: sum.splits
           dest: validate_symbol_Inl validate_side_Inl validate_quantity_Inl validate_price_Inl)

lemma martingale_leg_count_checked:
  assumes "n < 2"
  shows "\<exists>msg. place_martingale_grid float_pow lg submit symbol side b hi lo n m grid_type w
           = (Inl (ValidationError msg), w)"
  using assms
  by (auto simp: place_martingale_grid_def split: sum.splits
           dest: validate_symbol_Inl validate_side_Inl validate_quantity_Inl validate_price_Inl)

lemma twap_leg_count_checked:
  assumes "n < 2 \<or> 100 < n"
  shows "\<exists>msg. place_twap_order lg submit symbol side q d n order_type price tif w
           = (Inl (ValidationError msg), w)"
proof -
  have "\<exists>msg. r = (Inl (ValidationError msg), w)"
    if "r = place_twap_order lg submit symbol side q d n order_type price tif w" for r
    using that assms unfolding place_twap_order_def
    by (auto split: sum.splits option.splits if_splits
             dest: validate_symbol_Inl validate_side_Inl validate_quantity_Inl validate_price_Inl)
  then show ?thesis by simp
qed

lemma python_pow_2_minus_1: "python_pow (Fin 2) (Fin (- 1)) = Inr (Fin (1 / 2))"
proof -
  have "(2::real) powr - 1 = 1 / 2" by (simp add: powr_minus_divide)
  moreover have "to_double (1 / 2) = Fin (1 / 2)"
    using to_double_eval [of "- 1" "1 / 2" "2 ^ 52"] by (simp add: round_half_even_def)
  ultimately show ?thesis by (simp add: python_pow_def)
qed

text \<open>
  Claim C2 against the code. \<open>place_dca_grid\<close> checks no leg count: with one leg, and
  with none, it ends in \<open>ZeroDivisionError\<close>, not in a \<open>ValidationError\<close>.
  \<open>place_martingale_grid\<close> has no upper bound: a run of 51 legs submits 51 orders.
\<close>

theorem leg_count_not_enforced:
  "place_dca_grid float_pow lg submit ''BTCUSDT'' ''BUY'' (Fin 300) (Fin 200) (Fin 100) 1
      grid_type w
     = (Inl ZeroDivisionError, w)
   \<and> place_dca_grid python_pow lg submit ''BTCUSDT'' ''BUY'' (Fin 300) (Fin 200) (Fin 100) 0
      grid_type w
     = (Inl ZeroDivisionError, w)
   \<and> length (snd (snd (place_martingale_grid float_pow lg (traced submit)
                ''BTCUSDT'' ''BUY'' (Fin 1) (Fin 200) (Fin 100) 51 (Fin 2) ''ARITHMETIC''
                (w, [])))) = 51"
proof (intro conjI)
  have z: "float_of_int 0 = Inr (Fin 0)" using float_of_int_small [of 0] by simp
  have "calculate_grid_prices float_pow (Fin 100) (Fin 200) 1 grid_type
          = Inl ZeroDivisionError"
    by (simp add: calculate_grid_prices_def float_div_int_def float_div_def z
          int_true_div_def int_mul_float_def py_range_def double_simps)
  then show "place_dca_grid float_pow lg submit ''BTCUSDT'' ''BUY'' (Fin 300) (Fin 200)
      (Fin 100) 1 grid_type w = (Inl ZeroDivisionError, w)"
    by (simp add: place_dca_grid_def validate_symbol_BTCUSDT validate_side_BUY
          validate_price_bounds)
  have m1: "float_of_int (- 1) = Inr (Fin (- 1))" using float_of_int_small [of "- 1"] by simp
  have t1: "to_double (- 1) = Fin (- 1)" using to_double_of_int [of "- 1"] by simp
  have "calculate_grid_prices python_pow (Fin 100) (Fin 200) 0 grid_type = Inr []"
    by (simp add: calculate_grid_prices_def float_div_int_def float_div_def m1
          int_true_div_def py_range_def double_simps t1 python_pow_2_minus_1)
  then show "place_dca_grid python_pow lg submit ''BTCUSDT'' ''BUY'' (Fin 300) (Fin 200)
      (Fin 100) 0 grid_type w = (Inl ZeroDivisionError, w)"
    by (simp add: place_dca_grid_def validate_symbol_BTCUSDT validate_side_BUY
          validate_price_bounds float_div_int_def float_div_def z)
  obtain ps where ps: "calculate_grid_prices float_pow (Fin 100) (Fin 200) 51 ''ARITHMETIC''
      = Inr ps"
    using arithmetic_branch [of 51 float_pow "Fin 100" "Fin 200"] by simp
  have "snd (snd (place_martingale_grid float_pow lg (traced submit)
                ''BTCUSDT'' ''BUY'' (Fin 1) (Fin 200) (Fin 100) 51 (Fin 2) ''ARITHMETIC''
                (w, [])))
      = map (\<lambda>i. LimitOrder ''BTCUSDT'' ''BUY'' (martingale_quantities (Fin 1) (Fin 2) 51 ! i)
                   (Some (ps ! i)) ''GTC'') [0..<nat 51]"
    using validate_symbol_BTCUSDT validate_side_BUY validate_quantity_one
      validate_price_bounds
    by (rule martingale_requests) (simp_all add: ps)
  then show "length (snd (snd (place_martingale_grid float_pow lg (traced submit)
                ''BTCUSDT'' ''BUY'' (Fin 1) (Fin 200) (Fin 100) 51 (Fin 2) ''ARITHMETIC''
                (w, [])))) = 51"
    by simp
qed

section \<open>The average price of a TWAP run\<close>



















lemma validate_quantity_tenth:
  "validate_quantity (to_double (1 / 10)) = Inr (to_double (1 / 10))"
  by (simp add: validate_quantity_def min_quantity_val max_quantity_def to_double_tenth)








section \<open>The Martingale grid\<close>

lemma py_range_3: "py_range 3 = [0, 1, 2]"
  by (simp add: py_range_def eval_nat_numeral)

lemma martingale_quantities_3:
  "martingale_quantities b m 3 = [b, fmul b m, fmul (fmul b m) m]"
  by (simp add: martingale_quantities_def py_range_3)

lemma martingale_quantities_5:
  "martingale_quantities b m 5
     = [b, fmul b m, fmul (fmul b m) m, fmul (fmul (fmul b m) m) m,
        fmul (fmul (fmul (fmul b m) m) m) m]"
  by (simp add: martingale_quantities_def py_range_5)

lemma multiplier_checked:
  assumes "fle m (Fin 1)"
  shows "\<exists>msg. place_martingale_grid float_pow lg submit symbol side b hi lo n m grid_type w
           = (Inl (ValidationError msg), w)"
  using assms
  by (auto simp: place_martingale_grid_def split: sum.splits
           dest: validate_symbol_Inl validate_side_Inl validate_quantity_Inl validate_price_Inl)

lemma martingale_report_quantities:
  assumes "place_martingale_grid float_pow lg submit symbol side b hi lo n m grid_type w
             = (Inr rep, w')"
  shows "\<exists>b'. validate_quantity b = Inr b'
              \<and> m_grid_quantities rep = martingale_quantities b' m n"
  using assms
  by (auto simp: place_martingale_grid_def Let_def split: sum.splits if_splits option.splits)

lemma to_double_eleven_tenths: "to_double (11 / 10) = Fin (2476979795053773 / 2251799813685248)"
  using to_double_eval [of "0" "(11 / 10)" "4953959590107546"]
  by (simp add: round_half_even_def)

lemma martingale_q1: "fmul (Fin (3602879701896397 / 36028797018963968)) (Fin (2476979795053773 / 2251799813685248)) = Fin (3963167672086037 / 36028797018963968)"
  using to_double_eval [of "- 4" "(3602879701896397 / 36028797018963968) * (2476979795053773 / 2251799813685248)" "7926335344172074"]
  by (simp add: round_half_even_def)

lemma martingale_q2: "fmul (Fin (3963167672086037 / 36028797018963968)) (Fin (2476979795053773 / 2251799813685248)) = Fin (4359484439294641 / 36028797018963968)"
  using to_double_eval [of "- 4" "(3963167672086037 / 36028797018963968) * (2476979795053773 / 2251799813685248)" "8718968878589282"]
  by (simp add: round_half_even_def)

lemma martingale_q3: "fmul (Fin (4359484439294641 / 36028797018963968)) (Fin (2476979795053773 / 2251799813685248)) = Fin (4795432883224105 / 36028797018963968)"
  using to_double_eval [of "- 3" "(4359484439294641 / 36028797018963968) * (2476979795053773 / 2251799813685248)" "4795432883224105"]
  by (simp add: round_half_even_def)

lemma eleven_tenths_cubed: "to_double ((2476979795053773 / 2251799813685248) ^ 3) = Fin (1498572776007533 / 1125899906842624)"
  using to_double_eval [of "0" "((2476979795053773 / 2251799813685248) ^ 3)" "5994291104030132"]
  by (simp add: round_half_even_def power3_eq_cube)

lemma tenth_times_cube: "fmul (Fin (3602879701896397 / 36028797018963968)) (Fin (1498572776007533 / 1125899906842624)) = Fin (2397716441612053 / 18014398509481984)"
  using to_double_eval [of "- 3" "(3602879701896397 / 36028797018963968) * (1498572776007533 / 1125899906842624)" "4795432883224106"]
  by (simp add: round_half_even_def)

lemma three_prices:
  "calculate_grid_prices float_pow (Fin 100) (Fin 200) 3 ''ARITHMETIC''
     = Inr [Fin 100, Fin 150, Fin 200]"
  by (simp add: calculate_grid_prices_def float_div_int_def int_mul_float_def float_div_def
        fsub_def float_of_int_small double_simps py_range_3)

lemma two_600_double: "to_double (2 ^ 600) = Fin (2 ^ 600)"
proof -
  have "to_double (2 powi 600) = Fin (rnd (2 powi 600))"
    by (rule to_double_Fin) (simp add: two_powi_le_iff)
  then show ?thesis using rnd_two_powi [of 600] by simp
qed

text \<open>
  Claim C7, with the closed form replaced by what the loop computes. A multiplier of at
  most 1.0 ends every call in a \<open>ValidationError\<close> and nothing is submitted. Otherwise,
  for arguments that pass the validators, at least two legs and a price schedule, the
  run submits one limit order per leg, in index order, each with the one validated side
  and the quantity of its leg; there are as many quantities as legs, the first is the
  base quantity and each later one is the double product of its predecessor and the
  multiplier. A report that is returned carries these quantities.
\<close>

theorem martingale_sizing:
  "(fle m (Fin 1) \<longrightarrow>
      (\<exists>msg. place_martingale_grid float_pow lg submit symbol side b hi lo n m grid_type w
               = (Inl (ValidationError msg), w)))
   \<and> (\<not> fle m (Fin 1) \<and> validate_symbol symbol = Inr symbol'
        \<and> validate_side side = Inr side' \<and> validate_quantity b = Inr b
        \<and> validate_price hi = Inr hi \<and> validate_price lo = Inr lo \<and> \<not> fle hi lo \<and> 2 \<le> n
        \<and> calculate_grid_prices float_pow lo hi n grid_type = Inr ps \<longrightarrow>
      snd (snd (place_martingale_grid float_pow lg (traced submit) symbol side b hi lo n m
                  grid_type (w, [])))
        = map (\<lambda>i. LimitOrder symbol' side' (martingale_quantities b m n ! i)
                     (Some (ps ! i)) ''GTC'')
            [0..<nat n]
      \<and> (side' = ''BUY'' \<or> side' = ''SELL'')
      \<and> length (martingale_quantities b m n) = nat n
      \<and> martingale_quantities b m n ! 0 = b
      \<and> (\<forall>i. Suc i < nat n \<longrightarrow>
             martingale_quantities b m n ! Suc i = fmul (martingale_quantities b m n ! i) m))
   \<and> (place_martingale_grid float_pow lg submit symbol side b hi lo n m grid_type w
         = (Inr rep, w')
        \<and> validate_quantity b = Inr b \<longrightarrow>
      m_grid_quantities rep = martingale_quantities b m n)"
proof (intro conjI impI allI)
  assume "fle m (Fin 1)"
  then show "\<exists>msg. place_martingale_grid float_pow lg submit symbol side b hi lo n m grid_type w
               = (Inl (ValidationError msg), w)"
    by (rule multiplier_checked)
next
  assume a: "\<not> fle m (Fin 1) \<and> validate_symbol symbol = Inr symbol'
        \<and> validate_side side = Inr side' \<and> validate_quantity b = Inr b
        \<and> validate_price hi = Inr hi \<and> validate_price lo = Inr lo \<and> \<not> fle hi lo \<and> 2 \<le> n
        \<and> calculate_grid_prices float_pow lo hi n grid_type = Inr ps"
  then show "snd (snd (place_martingale_grid float_pow lg (traced submit) symbol side b hi lo
                  n m grid_type (w, [])))
        = map (\<lambda>i. LimitOrder symbol' side' (martingale_quantities b m n ! i)
                     (Some (ps ! i)) ''GTC'')
            [0..<nat n]"
    by (intro martingale_requests) simp_all
  show "side' = ''BUY'' \<or> side' = ''SELL''"
    using a validate_side_Inr [of side side'] by blast
  show "length (martingale_quantities b m n) = nat n"
    by (rule martingale_quantities_recurrence)
  show "martingale_quantities b m n ! 0 = b"
    using a by (intro martingale_quantities_recurrence) simp
  show "martingale_quantities b m n ! Suc i = fmul (martingale_quantities b m n ! i) m"
    if "Suc i < nat n" for i
    using that by (rule martingale_quantities_recurrence)
next
  assume "place_martingale_grid float_pow lg submit symbol side b hi lo n m grid_type w
         = (Inr rep, w')
        \<and> validate_quantity b = Inr b"
  then show "m_grid_quantities rep = martingale_quantities b m n"
    using martingale_report_quantities [of float_pow lg submit symbol side b hi lo n m
        grid_type w rep w']
    by auto
qed

text \<open>
  A multiplier of 1.0 is refused; with the base quantity 1.0 and the multiplier 2.0,
  five legs between the prices 100 and 200 are submitted with the quantities 1, 2, 4, 8
  and 16.
\<close>

theorem martingale_sizing_witness:
  "(\<exists>msg. place_martingale_grid python_pow BotLogger accepting_client
             ''BTCUSDT'' ''BUY'' (Fin 1) (Fin 200) (Fin 100) 5 (Fin 1) ''ARITHMETIC'' ()
           = (Inl (ValidationError msg), ()))
   \<and> snd (snd (place_martingale_grid python_pow BotLogger (traced accepting_client)
                 ''BTCUSDT'' ''BUY'' (Fin 1) (Fin 200) (Fin 100) 5 (Fin 2) ''ARITHMETIC''
                 ((), [])))
       = [LimitOrder ''BTCUSDT'' ''BUY'' (Fin 1) (Some (Fin 100)) ''GTC'',
          LimitOrder ''BTCUSDT'' ''BUY'' (Fin 2) (Some (Fin 125)) ''GTC'',
          LimitOrder ''BTCUSDT'' ''BUY'' (Fin 4) (Some (Fin 150)) ''GTC'',
          LimitOrder ''BTCUSDT'' ''BUY'' (Fin 8) (Some (Fin 175)) ''GTC'',
          LimitOrder ''BTCUSDT'' ''BUY'' (Fin 16) (Some (Fin 200)) ''GTC'']
   \<and> martingale_quantities (Fin 1) (Fin 2) 5 = [Fin 1, Fin 2, Fin 4, Fin 8, Fin 16]
   \<and> (\<exists>rep. place_martingale_grid python_pow keyword_logger accepting_client
             ''BTCUSDT'' ''BUY'' (Fin 1) (Fin 200) (Fin 100) 5 (Fin 2) ''ARITHMETIC'' ()
           = (Inr rep, ())
          \<and> m_grid_quantities rep = [Fin 1, Fin 2, Fin 4, Fin 8, Fin 16])"
proof -
  have q: "martingale_quantities (Fin 1) (Fin 2) 5 = [Fin 1, Fin 2, Fin 4, Fin 8, Fin 16]"
    by (simp add: martingale_quantities_5 double_simps)
  have "(2::real) powr 2 = 4" "(2::real) powr 3 = 8" "(2::real) powr 4 = 16"
    by (simp_all add: powr_numeral)
  then have p': "python_pow (Fin 2) (Fin 0) = Inr (Fin 1)"
    "python_pow (Fin 2) (Fin 1) = Inr (Fin 2)" "python_pow (Fin 2) (Fin 2) = Inr (Fin 4)"
    "python_pow (Fin 2) (Fin 3) = Inr (Fin 8)" "python_pow (Fin 2) (Fin 4) = Inr (Fin 16)"
    by (simp_all add: python_pow_def double_simps)
  have s: "success_rate 5 5 = Inr (Fin 100)"
    by (simp add: success_rate_def int_true_div_def float_mul_int_def float_of_int_small
          double_simps)
  have s': "success_rate (Suc (Suc (Suc (Suc (Suc 0))))) 5 = Inr (Fin 100)"
  proof -
    have "Suc (Suc (Suc (Suc (Suc 0)))) = 5" by simp
    then show ?thesis by (simp only: s)
  qed
  have r: "\<exists>rep. place_martingale_grid python_pow keyword_logger accepting_client
             ''BTCUSDT'' ''BUY'' (Fin 1) (Fin 200) (Fin 100) 5 (Fin 2) ''ARITHMETIC'' ()
           = (Inr rep, ())"
    by (simp add: place_martingale_grid_def validate_symbol_BTCUSDT validate_side_BUY
          validate_quantity_one validate_price_bounds five_prices q enumerate_5
          martingale_leg_def keyword_logger_def accepting_client_def filled_ack_def
          float_of_int_small p' s' Let_def)
  then obtain rep where rep: "place_martingale_grid python_pow keyword_logger accepting_client
             ''BTCUSDT'' ''BUY'' (Fin 1) (Fin 200) (Fin 100) 5 (Fin 2) ''ARITHMETIC'' ()
           = (Inr rep, ())" by blast
  note t1 = martingale_sizing [where m = "Fin 1" and float_pow = python_pow
      and lg = BotLogger and submit = accepting_client and symbol = "''BTCUSDT''"
      and side = "''BUY''" and b = "Fin 1" and hi = "Fin 200" and lo = "Fin 100" and n = 5
      and grid_type = "''ARITHMETIC''" and w = "()"]
  note t2 = martingale_sizing [where m = "Fin 2" and float_pow = python_pow
      and lg = BotLogger and submit = accepting_client and symbol = "''BTCUSDT''"
      and side = "''BUY''" and b = "Fin 1" and hi = "Fin 200" and lo = "Fin 100" and n = 5
      and grid_type = "''ARITHMETIC''" and w = "()" and symbol' = "''BTCUSDT''"
      and side' = "''BUY''" and ps = "[Fin 100, Fin 125, Fin 150, Fin 175, Fin 200]"]
  note t3 = martingale_sizing [where m = "Fin 2" and float_pow = python_pow
      and lg = keyword_logger and submit = accepting_client and symbol = "''BTCUSDT''"
      and side = "''BUY''" and b = "Fin 1" and hi = "Fin 200" and lo = "Fin 100" and n = 5
      and grid_type = "''ARITHMETIC''" and w = "()" and rep = rep and w' = "()"]
  have c1: "\<exists>msg. place_martingale_grid python_pow BotLogger accepting_client
             ''BTCUSDT'' ''BUY'' (Fin 1) (Fin 200) (Fin 100) 5 (Fin 1) ''ARITHMETIC'' ()
           = (Inl (ValidationError msg), ())"
    using t1 by simp
  have "snd (snd (place_martingale_grid python_pow BotLogger (traced accepting_client)
                 ''BTCUSDT'' ''BUY'' (Fin 1) (Fin 200) (Fin 100) 5 (Fin 2) ''ARITHMETIC''
                 ((), [])))
       = map (\<lambda>i. LimitOrder ''BTCUSDT'' ''BUY'' (martingale_quantities (Fin 1) (Fin 2) 5 ! i)
                     (Some ([Fin 100, Fin 125, Fin 150, Fin 175, Fin 200] ! i)) ''GTC'')
            [0..<nat 5]"
    using t2
    by (simp add: validate_symbol_BTCUSDT validate_side_BUY validate_quantity_one
          validate_price_bounds five_prices)
  also have "[0..<nat 5] = [0, 1, 2, 3, 4]" using py_range_5 by (simp add: py_range_def)
  finally have c2: "snd (snd (place_martingale_grid python_pow BotLogger (traced accepting_client)
                 ''BTCUSDT'' ''BUY'' (Fin 1) (Fin 200) (Fin 100) 5 (Fin 2) ''ARITHMETIC''
                 ((), [])))
       = [LimitOrder ''BTCUSDT'' ''BUY'' (Fin 1) (Some (Fin 100)) ''GTC'',
          LimitOrder ''BTCUSDT'' ''BUY'' (Fin 2) (Some (Fin 125)) ''GTC'',
          LimitOrder ''BTCUSDT'' ''BUY'' (Fin 4) (Some (Fin 150)) ''GTC'',
          LimitOrder ''BTCUSDT'' ''BUY'' (Fin 8) (Some (Fin 175)) ''GTC'',
          LimitOrder ''BTCUSDT'' ''BUY'' (Fin 16) (Some (Fin 200)) ''GTC'']"
    by (simp add: q)
  have c3: "m_grid_quantities rep = [Fin 1, Fin 2, Fin 4, Fin 8, Fin 16]"
    using t3 rep by (simp add: validate_quantity_one q)
  show ?thesis using c1 c2 q rep c3 by blast
qed

text \<open>
  The closed form \<open>base \<times> multiplier^i\<close> is not what the loop computes. With the base
  quantity 0.1 and the multiplier 1.1 the fourth quantity is 0.13310000000000002, while
  \<open>0.1 * 1.1 ** 3\<close> is 0.13310000000000005 and the exact product of the two doubles is
  neither. With the base quantity 1.0 and the multiplier \<open>2^600\<close> the third order is
  submitted with an infinite quantity, and \<open>multiplier ** 2\<close> raises \<open>OverflowError\<close>.
\<close>

theorem martingale_sizing_counterexample:
  "\<not> fle (to_double (11 / 10)) (Fin 1)
   \<and> validate_quantity (to_double (1 / 10)) = Inr (to_double (1 / 10))
   \<and> martingale_quantities (to_double (1 / 10)) (to_double (11 / 10)) 5 ! 3
       = Fin (4795432883224105 / 36028797018963968)
   \<and> python_pow (to_double (11 / 10)) (Fin 3) = Inr (Fin (1498572776007533 / 1125899906842624))
   \<and> fmul (to_double (1 / 10)) (Fin (1498572776007533 / 1125899906842624)) = Fin (2397716441612053 / 18014398509481984)
   \<and> martingale_quantities (to_double (1 / 10)) (to_double (11 / 10)) 5 ! 3
       \<noteq> fmul (to_double (1 / 10)) (Fin (1498572776007533 / 1125899906842624))
   \<and> fval (martingale_quantities (to_double (1 / 10)) (to_double (11 / 10)) 5 ! 3)
       \<noteq> fval (to_double (1 / 10)) * fval (to_double (11 / 10)) ^ 3
   \<and> snd (snd (place_martingale_grid python_pow keyword_logger (traced accepting_client)
                 ''BTCUSDT'' ''BUY'' (Fin 1) (Fin 200) (Fin 100) 3 (Fin (2 ^ 600))
                 ''ARITHMETIC'' ((), [])))
       = [LimitOrder ''BTCUSDT'' ''BUY'' (Fin 1) (Some (Fin 100)) ''GTC'',
          LimitOrder ''BTCUSDT'' ''BUY'' (Fin (2 ^ 600)) (Some (Fin 150)) ''GTC'',
          LimitOrder ''BTCUSDT'' ''BUY'' PInf (Some (Fin 200)) ''GTC'']
   \<and> python_pow (Fin (2 ^ 600)) (Fin 2) = Inl OverflowError"
proof (intro conjI)
  show "\<not> fle (to_double (11 / 10)) (Fin 1)" by (simp add: to_double_eleven_tenths)
  show "validate_quantity (to_double (1 / 10)) = Inr (to_double (1 / 10))"
    by (rule validate_quantity_tenth)
  show q3: "martingale_quantities (to_double (1 / 10)) (to_double (11 / 10)) 5 ! 3
       = Fin (4795432883224105 / 36028797018963968)"
    by (simp add: martingale_quantities_5 to_double_tenth to_double_eleven_tenths
          martingale_q1 martingale_q2 martingale_q3 del: fmul.simps)
  show p3: "python_pow (to_double (11 / 10)) (Fin 3) = Inr (Fin (1498572776007533 / 1125899906842624))"
    by (simp add: python_pow_def to_double_eleven_tenths eleven_tenths_cubed)
  show q3b: "fmul (to_double (1 / 10)) (Fin (1498572776007533 / 1125899906842624)) = Fin (2397716441612053 / 18014398509481984)"
    by (simp only: to_double_tenth tenth_times_cube)
  show "martingale_quantities (to_double (1 / 10)) (to_double (11 / 10)) 5 ! 3
       \<noteq> fmul (to_double (1 / 10)) (Fin (1498572776007533 / 1125899906842624))"
    by (simp only: q3 q3b) simp
  show "fval (martingale_quantities (to_double (1 / 10)) (to_double (11 / 10)) 5 ! 3)
       \<noteq> fval (to_double (1 / 10)) * fval (to_double (11 / 10)) ^ 3"
    using q3 by (simp add: to_double_tenth to_double_eleven_tenths power3_eq_cube)
  have v: "\<not> fle (Fin (2 ^ 600)) (Fin 1)" by simp
  have "snd (snd (place_martingale_grid python_pow keyword_logger (traced accepting_client)
                 ''BTCUSDT'' ''BUY'' (Fin 1) (Fin 200) (Fin 100) 3 (Fin (2 ^ 600))
                 ''ARITHMETIC'' ((), [])))
       = map (\<lambda>i. LimitOrder ''BTCUSDT'' ''BUY''
                     (martingale_quantities (Fin 1) (Fin (2 ^ 600)) 3 ! i)
                     (Some ([Fin 100, Fin 150, Fin 200] ! i)) ''GTC'')
            [0..<nat 3]"
    using validate_symbol_BTCUSDT validate_side_BUY validate_quantity_one
      validate_price_bounds(1) validate_price_bounds(2) _ v _ three_prices
    by (rule martingale_requests) simp_all
  also have "[0..<nat 3] = [0, 1, 2]" using py_range_3 by (simp add: py_range_def)
  finally show "snd (snd (place_martingale_grid python_pow keyword_logger
                 (traced accepting_client)
                 ''BTCUSDT'' ''BUY'' (Fin 1) (Fin 200) (Fin 100) 3 (Fin (2 ^ 600))
                 ''ARITHMETIC'' ((), [])))
       = [LimitOrder ''BTCUSDT'' ''BUY'' (Fin 1) (Some (Fin 100)) ''GTC'',
          LimitOrder ''BTCUSDT'' ''BUY'' (Fin (2 ^ 600)) (Some (Fin 150)) ''GTC'',
          LimitOrder ''BTCUSDT'' ''BUY'' PInf (Some (Fin 200)) ''GTC'']"
    using two_600_double by (simp add: martingale_quantities_3 to_double_def)
  have "((2::real) ^ 600) powr 2 = 2 ^ 1200" by (simp add: powr_numeral flip: power_mult)
  then show "python_pow (Fin (2 ^ 600)) (Fin 2) = Inl OverflowError"
    by (simp add: python_pow_def to_double_def)
qed

section \<open>The range of a price schedule\<close>












section \<open>The DCA grid\<close>





section \<open>The grid type of the Martingale and DCA grids\<close>












section \<open>The budget of a DCA grid\<close>




















end
